theory Spec2Isabelle
  imports Main
begin

section \<open>Data model\<close>

text \<open>
  The values the plugin exchanges with the TypeScript compiler API, Node and Rollup.
  Compiler options are a mapping from flag names to values; the two enumerations hold
  the members the plugin names and a catch-all for the rest.
\<close>

datatype ModuleKind = ES2015 | ES2022 | OtherModuleKind nat

datatype ModuleResolutionKind = NodeJs | Bundler | OtherModuleResolutionKind nat

datatype option_value =
    VBool bool
  | VNumber int
  | VString string
  | VModule ModuleKind
  | VModuleResolution ModuleResolutionKind

type_synonym CompilerOptions = "string \<rightharpoonup> option_value"

datatype json =
    JNull
  | JBool bool
  | JNumber int
  | JString string
  | JArray "json list"
  | JObject "(string \<times> json) list"

datatype DiagnosticCategory = Warning | Error | Suggestion | Message

datatype DiagnosticMessageChain = MessageChain string "DiagnosticMessageChain list"

datatype MessageText = Text string | Chained DiagnosticMessageChain

record SourceFile =
  fileName :: string
  fileText :: string

text \<open>
  \<^verbatim>\<open>ts.Diagnostic\<close>: its \<^verbatim>\<open>file\<close> (here \<open>diag_file\<close>) and
  \<^verbatim>\<open>start\<close> are optional
  (\<^verbatim>\<open>SourceFile | undefined\<close>, \<^verbatim>\<open>number | undefined\<close>); a
  position is a character offset, counted from 0.
\<close>

record Diagnostic =
  messageText :: MessageText
  category :: DiagnosticCategory
  diag_file :: "SourceFile option"
  start :: "nat option"

record LineAndCharacter =
  lc_line :: nat
  character :: nat

text \<open>The location handed to Rollup: \<^verbatim>\<open>{ file, line, column }\<close>.\<close>

record Location =
  loc_file :: string
  line :: nat
  column :: nat

text \<open>
  The object thrown when no reporting context is given:
  \<^verbatim>\<open>{ message, id, loc, frame }\<close>, with \<^verbatim>\<open>id\<close> and
  \<^verbatim>\<open>frame\<close> possibly \<^verbatim>\<open>null\<close> and \<^verbatim>\<open>loc\<close>
  possibly \<^verbatim>\<open>undefined\<close>.
\<close>

record Failure =
  message :: string
  fail_id :: "string option"
  loc :: "Location option"
  frame :: "string option"

text \<open>
  What \<^verbatim>\<open>ts.convertCompilerOptionsFromJson\<close> and
  \<^verbatim>\<open>ts.parseJsonConfigFileContent\<close> return (the fields the plugin reads),
  and what \<^verbatim>\<open>ts.parseConfigFileTextToJson\<close> returns.
\<close>

record ParsedOptions =
  parsed_options :: CompilerOptions
  parsed_errors :: "Diagnostic list"

record ConfigFileJson =
  parse_config :: json
  parse_error :: "Diagnostic option"

text \<open>The rejection of \<^verbatim>\<open>fs.readFile\<close>: its \<^verbatim>\<open>code\<close> and message.\<close>

record ErrnoException =
  errno_code :: "string option"
  errno_message :: string

datatype read_result = Contents string | ReadFailed ErrnoException

text \<open>
  A program is identified by what \<^verbatim>\<open>ts.createProgram(files, compilerOptions)\<close>
  was given. The compiler reads fields of its options argument without a test, so it
  creates a program only from options that are defined.
\<close>

record Program =
  rootNames :: "string list"
  programOptions :: CompilerOptions

record TranspileOutput =
  outputText :: string
  sourceMapText :: "string option"

text \<open>
  The reporting context of a transform (\<^verbatim>\<open>this\<close>): one value, present
  or not.
\<close>

datatype PluginContext = TransformContext

text \<open>
  Rollup's \<^verbatim>\<open>input\<close> option: one path, a sequence of paths, or an object
  from entry names to paths, given by its own properties in enumeration order (the order
  \<^verbatim>\<open>Object.values\<close> follows).
\<close>

datatype InputOption =
    InputString string
  | InputArray "string list"
  | InputObject "(string \<times> string) list"

section \<open>The host: Node's \<open>path\<close> and \<open>fs\<close> modules\<close>

text \<open>
  The plugin (\<^verbatim>\<open>src/index.ts\<close> and its later generation
  \<^verbatim>\<open>src/unnamed/part_000\<close>) calls Node's \<^verbatim>\<open>path\<close> and
  \<^verbatim>\<open>fs\<close> modules. They are not code of the repository.

  \<^verbatim>\<open>path.extname\<close> decides which branch the resolver takes, so it is
  written out (POSIX flavour): trailing slashes are skipped, the last path component is
  taken, and the extension runs from its last dot to its end; a component with no dot,
  with its only dot in first position, or equal to \<^verbatim>\<open>..\<close> has the
  empty extension.
\<close>

definition lastComponent :: "string \<Rightarrow> string" where
  "lastComponent p =
     rev (takeWhile (\<lambda>c. c \<noteq> CHR ''/'') (dropWhile (\<lambda>c. c = CHR ''/'') (rev p)))"

definition extname :: "string \<Rightarrow> string" where
  "extname p =
     (let b = lastComponent p;
          e = rev (takeWhile (\<lambda>c. c \<noteq> CHR ''.'') (rev b))
      in if CHR ''.'' \<in> set b \<and> b \<noteq> ''..'' \<and> Suc (length e) \<noteq> length b
         then CHR ''.'' # e else [])"

text \<open>
  The rest of the host is a parameter, one field per external function the plugin
  calls. \<open>access h p\<close> holds when \<^verbatim>\<open>fs.access(p)\<close> resolves (the
  file exists); \<open>path_resolve h d f\<close> is \<^verbatim>\<open>path.resolve(d, f)\<close>,
  \<open>path_dirname\<close> and \<open>path_join\<close> likewise; \<open>readFile h f\<close> is the
  outcome of \<^verbatim>\<open>fs.readFile(f, 'utf-8')\<close>; \<open>glob_declarations h\<close> is
  what \<^verbatim>\<open>glob('**/*.d.ts', { ignore: 'node_modules/**' })\<close> yields. The
  fields from \<open>convertCompilerOptionsFromJson\<close> to \<open>transpileModule\<close> are
  the functions of the TypeScript compiler API of the same names, \<open>JSON_parse\<close> is
  \<^verbatim>\<open>JSON.parse\<close> (\<open>None\<close> when it raises a syntax error), and
  \<open>getCodeFrame\<close> is the helper the plugin imports from
  \<^verbatim>\<open>./utils\<close>, a module of the repository that is not among its source
  files here.
\<close>

record host =
  access :: "string \<Rightarrow> bool"
  path_resolve :: "string \<Rightarrow> string \<Rightarrow> string"
  path_dirname :: "string \<Rightarrow> string"
  path_join :: "string \<Rightarrow> string \<Rightarrow> string"
  readFile :: "string \<Rightarrow> read_result"
  glob_declarations :: "string list"
  convertCompilerOptionsFromJson :: "json \<Rightarrow> ParsedOptions"
  parseConfigFileTextToJson :: "string \<Rightarrow> string \<Rightarrow> ConfigFileJson"
  parseJsonConfigFileContent :: "json \<Rightarrow> ParsedOptions"
  flattenDiagnosticMessageText :: "MessageText \<Rightarrow> string"
  getLineAndCharacterOfPosition :: "SourceFile \<Rightarrow> nat \<Rightarrow> LineAndCharacter"
  getSourceFile :: "Program \<Rightarrow> string \<Rightarrow> SourceFile option"
  getPreEmitDiagnostics :: "Program \<Rightarrow> SourceFile \<Rightarrow> Diagnostic list"
  transpileModule :: "string \<Rightarrow> CompilerOptions option \<Rightarrow> TranspileOutput"
  JSON_parse :: "string \<Rightarrow> json option"
  getCodeFrame :: "string \<Rightarrow> nat \<Rightarrow> nat \<Rightarrow> string"

section \<open>Module resolver, extension-preserving generation (src/index.ts)\<close>

text \<open>\<^verbatim>\<open>const extensions = ['.ts', '.tsx'];\<close>\<close>

definition extensions :: "string list" where
  "extensions = [''.ts'', ''.tsx'']"

text \<open>\<^verbatim>\<open>return extensions.includes(path.extname(filename));\<close>\<close>

definition isTsFile :: "string \<Rightarrow> bool" where
  "isTsFile filename = (extname filename \<in> set extensions)"

text \<open>
  \<^verbatim>\<open>resolve(importee, importer)\<close>: the loop over \<open>extensions\<close>; the first
  candidate that \<^verbatim>\<open>fs.access\<close> accepts is returned, a failed access is
  swallowed by the empty \<^verbatim>\<open>catch\<close>, and falling out of the loop returns
  \<^verbatim>\<open>undefined\<close> (\<open>None\<close>).
\<close>

fun resolve_loop :: "host \<Rightarrow> string list \<Rightarrow> string \<Rightarrow> string \<Rightarrow> string option" where
  "resolve_loop h [] importee importer = None"
| "resolve_loop h (ext # exts) importee importer =
     (let filename = importee @ ext;
          ident = path_resolve h (path_dirname h importer) filename
      in if access h ident then Some ident else resolve_loop h exts importee importer)"

definition resolve :: "host \<Rightarrow> string \<Rightarrow> string \<Rightarrow> string option" where
  "resolve h importee importer = resolve_loop h extensions importee importer"

text \<open>
  JavaScript's \<^verbatim>\<open>a || b\<close> on values that are a string or
  \<^verbatim>\<open>undefined\<close>: the empty string is falsy as well.
\<close>

definition js_or :: "string option \<Rightarrow> string option \<Rightarrow> string option" where
  "js_or a b = (case a of None \<Rightarrow> b | Some s \<Rightarrow> if s = [] then b else Some s)"

text \<open>
  \<^verbatim>\<open>resolveId(importee, importer)\<close> of src/index.ts. The importer is
  \<^verbatim>\<open>string | undefined\<close>; \<^verbatim>\<open>!importer\<close> holds for
  \<^verbatim>\<open>undefined\<close> and for the empty string.
\<close>

definition resolveId :: "host \<Rightarrow> string \<Rightarrow> string option \<Rightarrow> string option" where
  "resolveId h importee importer =
     (if extname importee \<noteq> [] then None
      else case importer of
        None \<Rightarrow> None
      | Some imp \<Rightarrow>
          if imp = [] then None
          else if \<not> isTsFile imp then None
          else js_or (resolve h importee imp)
                     (resolve h (path_join h importee ''index'') imp))"

section \<open>Module resolver, extension-remapping generation (src/unnamed/part_000)\<close>

text \<open>\<^verbatim>\<open>const tsExtensions = new Set([".ts", ".tsx", ".cts", ".mts"]);\<close>\<close>

definition tsExtensions :: "string list" where
  "tsExtensions = [''.ts'', ''.tsx'', ''.cts'', ''.mts'']"

text \<open>The object literal \<^verbatim>\<open>jsExtensions\<close>, key by key.\<close>

definition jsExtensions :: "(string \<times> string) list" where
  "jsExtensions =
     [(''.js'', ''.ts''), (''.jsx'', ''.tsx''), (''.cjs'', ''.cts''), (''.mjs'', ''.mts'')]"

definition isTsFile_remap :: "string \<Rightarrow> bool" where
  "isTsFile_remap filename = (extname filename \<in> set tsExtensions)"

text \<open>
  \<^verbatim>\<open>importee.replace(/\.[^.]+$/, (ext) => jsExtensions[ext])\<close>. The pattern
  is anchored at the end of the string and its tail admits no dot, so the only possible
  match starts at the last dot of the string and must be followed by at least one
  character. The callback's result is converted to a string: a match that is not a key of
  the table yields \<^verbatim>\<open>undefined\<close>, spliced in as the text
  \<^verbatim>\<open>undefined\<close>. With no match the string is returned as it is.
\<close>

definition replaceExtension :: "string \<Rightarrow> string" where
  "replaceExtension s =
     (let after = rev (takeWhile (\<lambda>c. c \<noteq> CHR ''.'') (rev s))
      in if CHR ''.'' \<in> set s \<and> after \<noteq> []
         then take (length s - Suc (length after)) s @
              (case map_of jsExtensions (CHR ''.'' # after) of
                 Some t \<Rightarrow> t
               | None \<Rightarrow> ''undefined'')
         else s)"

text \<open>
  \<^verbatim>\<open>resolve(importee, importer)\<close> of part_000.
  \<^verbatim>\<open>ext in jsExtensions\<close> is key membership: the extension is empty or
  starts with a dot, which no inherited property name does.
\<close>

definition resolve_remap :: "host \<Rightarrow> string \<Rightarrow> string \<Rightarrow> string option" where
  "resolve_remap h importee importer =
     (let ext = extname importee
      in if map_of jsExtensions ext = None then None
         else let importee' = replaceExtension importee;
                  ident = path_resolve h (path_dirname h importer) importee'
              in if access h ident then Some ident else None)"

definition resolveId_remap :: "host \<Rightarrow> string \<Rightarrow> string option \<Rightarrow> string option" where
  "resolveId_remap h importee importer =
     (case importer of
        None \<Rightarrow> None
      | Some imp \<Rightarrow>
          if imp = [] then None
          else if \<not> isTsFile_remap imp then None
          else resolve_remap h importee imp)"

section \<open>Config resolver\<close>

text \<open>\<^verbatim>\<open>const configFilename = 'tsconfig.json';\<close>\<close>

definition configFilename :: string where
  "configFilename = ''tsconfig.json''"

text \<open>
  The frozen module-level object \<^verbatim>\<open>compilerOptions\<close> of part_000, and the
  one of src/index.ts, which differs in \<^verbatim>\<open>moduleResolution\<close> only.
\<close>

definition compilerOptions :: CompilerOptions where
  "compilerOptions =
     [''importHelpers'' \<mapsto> VBool True,
      ''sourceMap'' \<mapsto> VBool True,
      ''module'' \<mapsto> VModule ES2022,
      ''moduleResolution'' \<mapsto> VModuleResolution Bundler]"

definition compilerOptions_index :: CompilerOptions where
  "compilerOptions_index =
     [''importHelpers'' \<mapsto> VBool True,
      ''sourceMap'' \<mapsto> VBool True,
      ''module'' \<mapsto> VModule ES2022,
      ''moduleResolution'' \<mapsto> VModuleResolution NodeJs]"

text \<open>
  The first half of \<^verbatim>\<open>getCompilerOptions(options)\<close>: what \<open>parsed\<close> holds
  when line \<^verbatim>\<open>if (parsed.errors.length)\<close> is reached (\<open>Inr\<close>), or the
  sequence thrown before (\<open>Inl\<close>). The argument \<open>pluginOptions\<close> is
  \<^verbatim>\<open>options.compilerOptions\<close> when \<^verbatim>\<open>options\<close> is given and
  that field is truthy, and \<open>None\<close> otherwise. An empty file text is falsy, so
  it is skipped like a missing file.
\<close>

definition loadParsed :: "host \<Rightarrow> json option \<Rightarrow> Diagnostic list + ParsedOptions" where
  "loadParsed h pluginOptions =
     (case pluginOptions of
        Some co \<Rightarrow> Inr (convertCompilerOptionsFromJson h co)
      | None \<Rightarrow>
          (case readFile h configFilename of
             ReadFailed e \<Rightarrow>
               if errno_code e \<noteq> Some ''ENOENT''
               then Inl [\<lparr>messageText = Text (errno_message e), category = Error,
                          diag_file = None, start = None\<rparr>]
               else Inr \<lparr>parsed_options = Map.empty, parsed_errors = []\<rparr>
           | Contents txt \<Rightarrow>
               if txt = [] then Inr \<lparr>parsed_options = Map.empty, parsed_errors = []\<rparr>
               else let result = parseConfigFileTextToJson h configFilename txt
                    in (case parse_error result of
                          Some d \<Rightarrow> Inl [d]
                        | None \<Rightarrow> Inr (parseJsonConfigFileContent h (parse_config result)))))"

text \<open>
  \<^verbatim>\<open>getCompilerOptions\<close>, with the module-level overlay as a parameter: a
  rejection is \<open>Inl\<close> of the thrown sequence, and
  \<^verbatim>\<open>Object.assign(parsed.options, compilerOptions)\<close> is the map override
  \<open>++\<close>, where the right operand wins.
\<close>

definition getCompilerOptions ::
  "CompilerOptions \<Rightarrow> host \<Rightarrow> json option \<Rightarrow> Diagnostic list + CompilerOptions" where
  "getCompilerOptions overlay h pluginOptions =
     (case loadParsed h pluginOptions of
        Inl ds \<Rightarrow> Inl ds
      | Inr parsed \<Rightarrow>
          if parsed_errors parsed \<noteq> [] then Inl (parsed_errors parsed)
          else Inr (parsed_options parsed ++ overlay))"

section \<open>Diagnostic reporter\<close>

text \<open>
  The constants \<^verbatim>\<open>id\<close>, \<^verbatim>\<open>lc\<close>, \<^verbatim>\<open>loc\<close> and
  \<^verbatim>\<open>frame\<close> of the loop body of \<^verbatim>\<open>printDiagnostics\<close>. The
  conditions are JavaScript truthiness: a source file object is truthy, an offset is
  truthy when it is present and not 0, a file name when it is not empty.
\<close>

definition diag_id :: "Diagnostic \<Rightarrow> string option" where
  "diag_id d = (case diag_file d of Some f \<Rightarrow> Some (fileName f) | None \<Rightarrow> None)"

definition diag_lc :: "host \<Rightarrow> Diagnostic \<Rightarrow> LineAndCharacter option" where
  "diag_lc h d =
     (case diag_file d of
        None \<Rightarrow> None
      | Some f \<Rightarrow>
          (case start d of
             None \<Rightarrow> None
           | Some s \<Rightarrow> if s = 0 then None else Some (getLineAndCharacterOfPosition h f s)))"

definition diag_loc :: "host \<Rightarrow> Diagnostic \<Rightarrow> Location option" where
  "diag_loc h d =
     (case diag_id d of
        None \<Rightarrow> None
      | Some i \<Rightarrow>
          if i = [] then None
          else (case diag_lc h d of
                  None \<Rightarrow> None
                | Some lc \<Rightarrow> Some \<lparr>loc_file = i, line = lc_line lc + 1, column = character lc\<rparr>))"

definition diag_frame :: "host \<Rightarrow> Diagnostic \<Rightarrow> string option" where
  "diag_frame h d =
     (case diag_file d of
        None \<Rightarrow> None
      | Some f \<Rightarrow>
          (case diag_loc h d of
             None \<Rightarrow> None
           | Some l \<Rightarrow> Some (getCodeFrame h (fileText f) (line l) (column l))))"

text \<open>
  What a call of the reporter leaves behind: the warnings sent to the context, in order,
  and how the call ended. Rollup's \<^verbatim>\<open>this.error\<close> never returns (it
  raises the error it is given), so it ends the loop, as the
  \<^verbatim>\<open>throw\<close> of the branch without a context does.
\<close>

datatype event =
    Warned string "Location option"
  | CreatedProgram Program

datatype report_outcome =
    Returned
  | ContextError string "Location option"
  | Thrown Failure

fun printDiagnostics ::
  "host \<Rightarrow> Diagnostic list \<Rightarrow> PluginContext option \<Rightarrow> event list \<times> report_outcome" where
  "printDiagnostics h [] context = ([], Returned)"
| "printDiagnostics h (d # ds) context =
     (let message = flattenDiagnosticMessageText h (messageText d)
      in case context of
           Some c \<Rightarrow>
             if category d = Error then ([], ContextError message (diag_loc h d))
             else if category d = Warning
             then (case printDiagnostics h ds context of
                     (evs, out) \<Rightarrow> (Warned message (diag_loc h d) # evs, out))
             else printDiagnostics h ds context
         | None \<Rightarrow>
             ([], Thrown \<lparr>message = message, fail_id = diag_id d, loc = diag_loc h d,
                          frame = diag_frame h d\<rparr>))"

section \<open>Plugin state and the \<open>options\<close> hook\<close>

text \<open>
  The three variables the closure of \<^verbatim>\<open>typescript(options)\<close> shares between
  its hooks: \<^verbatim>\<open>input\<close>, \<^verbatim>\<open>compilerOptions\<close> and
  \<^verbatim>\<open>program\<close>, the last two \<^verbatim>\<open>undefined\<close> at first.
\<close>

record plugin_state =
  st_input :: "string list"
  st_compilerOptions :: "CompilerOptions option"
  st_program :: "Program option"

definition initial_state :: plugin_state where
  "initial_state = \<lparr>st_input = [], st_compilerOptions = None, st_program = None\<rparr>"

text \<open>
  The hook \<^verbatim>\<open>options(inputOptions)\<close> of src/index.ts and part_000; the
  argument is \<^verbatim>\<open>inputOptions.input\<close>, \<open>None\<close> when it is missing. The
  only falsy values of its type are \<^verbatim>\<open>undefined\<close> and the empty string.
\<close>

definition options :: "plugin_state \<Rightarrow> InputOption option \<Rightarrow> plugin_state" where
  "options st inputOption =
     (case inputOption of
        None \<Rightarrow> st
      | Some (InputArray xs) \<Rightarrow> st\<lparr>st_input := xs\<rparr>
      | Some (InputString s) \<Rightarrow> if s = [] then st else st\<lparr>st_input := [s]\<rparr>
      | Some (InputObject kvs) \<Rightarrow> st\<lparr>st_input := map snd kvs\<rparr>)"

section \<open>The \<open>transform\<close> hook\<close>

text \<open>
  The two generations of the plugin share the text of \<^verbatim>\<open>transform\<close> but
  for three things: the test of the file name, the module-level overlay, and the
  context handed to the reporter for configuration diagnostics (none in src/index.ts,
  \<^verbatim>\<open>this\<close> in part_000).
\<close>

record generation =
  recognises :: "string \<Rightarrow> bool"
  overlay :: CompilerOptions
  config_context :: "PluginContext option"

definition index_ts :: generation where
  "index_ts =
     \<lparr>recognises = isTsFile, overlay = compilerOptions_index, config_context = None\<rparr>"

definition part_000 :: generation where
  "part_000 =
     \<lparr>recognises = isTsFile_remap, overlay = compilerOptions,
      config_context = Some TransformContext\<rparr>"

text \<open>
  How a call of \<^verbatim>\<open>transform\<close> ends: it declines
  (\<^verbatim>\<open>return;\<close>), returns \<^verbatim>\<open>{ code, map }\<close>, or rejects with
  what the reporter threw, with the error given to \<^verbatim>\<open>this.error\<close>, with
  the syntax error of \<^verbatim>\<open>JSON.parse\<close>, or with the type error that
  \<^verbatim>\<open>ts.createProgram\<close> raises when its options are
  \<^verbatim>\<open>undefined\<close>.
\<close>

datatype transform_outcome =
    Declined
  | Output string "json option"
  | Rejected Failure
  | Aborted string "Location option"
  | JsonSyntaxError
  | TypeError

text \<open>
  The last two statements of \<^verbatim>\<open>transform\<close>:
  \<^verbatim>\<open>ts.transpileModule(source, { compilerOptions })\<close> with the options the
  closure holds (possibly \<^verbatim>\<open>undefined\<close>), and the value returned; a
  source map text that is missing or empty gives \<^verbatim>\<open>map: null\<close>.
\<close>

definition emit :: "host \<Rightarrow> plugin_state \<Rightarrow> string \<Rightarrow> transform_outcome" where
  "emit h st source =
     (let output = transpileModule h source (st_compilerOptions st)
      in case sourceMapText output of
           None \<Rightarrow> Output (outputText output) None
         | Some m \<Rightarrow>
             if m = [] then Output (outputText output) None
             else (case JSON_parse h m of
                     None \<Rightarrow> JsonSyntaxError
                   | Some j \<Rightarrow> Output (outputText output) (Some j)))"

text \<open>
  The tail of \<^verbatim>\<open>transform\<close>, from
  \<^verbatim>\<open>const sourceFile = program.getSourceFile(id)\<close> on, with the program
  \<open>p\<close> that the variable \<^verbatim>\<open>program\<close> holds: the pre-emit
  diagnostics of the file go to the reporter with the context \<^verbatim>\<open>this\<close>,
  and the file is transpiled when the reporter returns. No \<^verbatim>\<open>await\<close>
  occurs in it.
\<close>

definition check_and_emit ::
  "host \<Rightarrow> plugin_state \<Rightarrow> Program \<Rightarrow> string \<Rightarrow> string \<Rightarrow> event list \<times> transform_outcome" where
  "check_and_emit h st p source ident =
     (case (case getSourceFile h p ident of
              None \<Rightarrow> ([], Returned)
            | Some sourceFile \<Rightarrow>
                printDiagnostics h (getPreEmitDiagnostics h p sourceFile) (Some TransformContext)) of
        (evs, Returned) \<Rightarrow> (evs, emit h st source)
      | (evs, ContextError m l) \<Rightarrow> (evs, Aborted m l)
      | (evs, Thrown f) \<Rightarrow> (evs, Rejected f))"

text \<open>
  The body of \<^verbatim>\<open>if (!program) { ... }\<close> after its
  \<^verbatim>\<open>await glob(...)\<close>: the entry points are appended to the files found,
  and the program is created from the list and the current
  \<^verbatim>\<open>compilerOptions\<close>. While that variable is
  \<^verbatim>\<open>undefined\<close> the call \<^verbatim>\<open>ts.createProgram(files, undefined)\<close>
  raises a type error (\<open>None\<close>) and \<^verbatim>\<open>program\<close> is not assigned.
\<close>

definition build_program :: "host \<Rightarrow> plugin_state \<Rightarrow> (plugin_state \<times> Program) option" where
  "build_program h st =
     (let files = glob_declarations h @ st_input st
      in case st_compilerOptions st of
           None \<Rightarrow> None
         | Some c \<Rightarrow>
             (let p = \<lparr>rootNames = files, programOptions = c\<rparr>
              in Some (st\<lparr>st_program := Some p\<rparr>, p)))"

text \<open>
  The block \<^verbatim>\<open>if (!compilerOptions) { try { ... } catch (diagnostics) { ... } }\<close>:
  the new state, the warnings sent, and the outcome when the reporter raised.
\<close>

definition resolve_config ::
  "generation \<Rightarrow> host \<Rightarrow> json option \<Rightarrow> plugin_state
     \<Rightarrow> plugin_state \<times> event list \<times> transform_outcome option" where
  "resolve_config g h pluginOptions st =
     (case st_compilerOptions st of
        Some c \<Rightarrow> (st, [], None)
      | None \<Rightarrow>
          (case getCompilerOptions (overlay g) h pluginOptions of
             Inr c \<Rightarrow> (st\<lparr>st_compilerOptions := Some c\<rparr>, [], None)
           | Inl diagnostics \<Rightarrow>
               (case printDiagnostics h diagnostics (config_context g) of
                  (evs, Returned) \<Rightarrow> (st, evs, None)
                | (evs, ContextError m l) \<Rightarrow> (st, evs, Some (Aborted m l))
                | (evs, Thrown f) \<Rightarrow> (st, evs, Some (Rejected f)))))"

text \<open>
  The rest of \<^verbatim>\<open>transform\<close>, from the test
  \<^verbatim>\<open>if (!program)\<close> to the end, run without interruption.
\<close>

definition build_and_emit ::
  "host \<Rightarrow> plugin_state \<Rightarrow> string \<Rightarrow> string
     \<Rightarrow> plugin_state \<times> event list \<times> transform_outcome" where
  "build_and_emit h st source ident =
     (case st_program st of
        Some p \<Rightarrow>
          (case check_and_emit h st p source ident of
             (evs, out) \<Rightarrow> (st, evs, out))
      | None \<Rightarrow>
          (case build_program h st of
             None \<Rightarrow> (st, [], TypeError)
           | Some (st', p) \<Rightarrow>
               (case check_and_emit h st' p source ident of
                  (evs, out) \<Rightarrow> (st', CreatedProgram p # evs, out))))"

text \<open>
  \<^verbatim>\<open>transform(source, id)\<close> run from its call to its end with no other call
  of the plugin in between: the new state, the events in order, and the outcome.
\<close>

definition transform ::
  "generation \<Rightarrow> host \<Rightarrow> json option \<Rightarrow> plugin_state \<Rightarrow> string \<Rightarrow> string
     \<Rightarrow> plugin_state \<times> event list \<times> transform_outcome" where
  "transform g h pluginOptions st source ident =
     (if \<not> recognises g ident then (st, [], Declined)
      else case resolve_config g h pluginOptions st of
             (st1, evs1, Some out) \<Rightarrow> (st1, evs1, out)
           | (st1, evs1, None) \<Rightarrow>
               (case build_and_emit h st1 source ident of
                  (st2, evs2, out) \<Rightarrow> (st2, evs1 @ evs2, out)))"

section \<open>Overlapping calls of \<open>transform\<close>\<close>

text \<open>
  \<^verbatim>\<open>transform\<close> is an \<^verbatim>\<open>async\<close> function: it runs until an
  \<^verbatim>\<open>await\<close>, where it is suspended and any other call of the plugin may run
  before it is resumed. It has two such points:
  \<^verbatim>\<open>await getCompilerOptions(options)\<close> and \<^verbatim>\<open>await glob(...)\<close>.
  A call in progress is a task: suspended at one of the two, with its arguments, or
  finished.
\<close>

datatype task =
    AwaitConfig string string
  | AwaitGlob string string
  | Finished transform_outcome

text \<open>
  From the test \<^verbatim>\<open>if (!program)\<close> on: suspended at the glob when the
  variable is unset, run to the end otherwise.
\<close>

definition after_config ::
  "host \<Rightarrow> plugin_state \<Rightarrow> string \<Rightarrow> string \<Rightarrow> plugin_state \<times> event list \<times> task" where
  "after_config h st source ident =
     (case st_program st of
        None \<Rightarrow> (st, [], AwaitGlob source ident)
      | Some p \<Rightarrow>
          (case check_and_emit h st p source ident of
             (evs, out) \<Rightarrow> (st, evs, Finished out)))"

text \<open>The call itself, up to its first suspension.\<close>

definition transform_start ::
  "generation \<Rightarrow> host \<Rightarrow> plugin_state \<Rightarrow> string \<Rightarrow> string
     \<Rightarrow> plugin_state \<times> event list \<times> task" where
  "transform_start g h st source ident =
     (if \<not> recognises g ident then (st, [], Finished Declined)
      else if st_compilerOptions st = None then (st, [], AwaitConfig source ident)
      else after_config h st source ident)"

text \<open>
  Resuming a task, with the shared state as it is at that moment, up to its next
  suspension or its end.
\<close>

definition resume ::
  "generation \<Rightarrow> host \<Rightarrow> json option \<Rightarrow> plugin_state \<Rightarrow> task
     \<Rightarrow> plugin_state \<times> event list \<times> task" where
  "resume g h pluginOptions st t =
     (case t of
        AwaitConfig source ident \<Rightarrow>
          (case getCompilerOptions (overlay g) h pluginOptions of
             Inr c \<Rightarrow> after_config h (st\<lparr>st_compilerOptions := Some c\<rparr>) source ident
           | Inl diagnostics \<Rightarrow>
               (case printDiagnostics h diagnostics (config_context g) of
                  (evs, Returned) \<Rightarrow>
                    (case after_config h st source ident of
                       (st', evs', t') \<Rightarrow> (st', evs @ evs', t'))
                | (evs, ContextError m l) \<Rightarrow> (st, evs, Finished (Aborted m l))
                | (evs, Thrown f) \<Rightarrow> (st, evs, Finished (Rejected f))))
      | AwaitGlob source ident \<Rightarrow>
          (case build_program h st of
             None \<Rightarrow> (st, [], Finished TypeError)
           | Some (st', p) \<Rightarrow>
               (case check_and_emit h st' p source ident of
                  (evs, out) \<Rightarrow> (st', CreatedProgram p # evs, Finished out)))
      | Finished out \<Rightarrow> (st, [], Finished out))"

text \<open>
  A build in progress: the shared variables, the calls of \<^verbatim>\<open>transform\<close>
  made so far, and the events so far. The bundler calls a hook or the event loop
  resumes a suspended call.
\<close>

record build =
  shared :: plugin_state
  tasks :: "task list"
  trace :: "event list"

datatype action =
    CallOptions "InputOption option"
  | CallTransform string string
  | Resume nat

definition initial_build :: build where
  "initial_build = \<lparr>shared = initial_state, tasks = [], trace = []\<rparr>"

definition step :: "generation \<Rightarrow> host \<Rightarrow> json option \<Rightarrow> build \<Rightarrow> action \<Rightarrow> build" where
  "step g h pluginOptions b a =
     (case a of
        CallOptions i \<Rightarrow> b\<lparr>shared := options (shared b) i\<rparr>
      | CallTransform source ident \<Rightarrow>
          (case transform_start g h (shared b) source ident of
             (st, evs, t) \<Rightarrow> \<lparr>shared = st, tasks = tasks b @ [t], trace = trace b @ evs\<rparr>)
      | Resume i \<Rightarrow>
          if i < length (tasks b)
          then (case resume g h pluginOptions (shared b) (tasks b ! i) of
                  (st, evs, t) \<Rightarrow>
                    \<lparr>shared = st, tasks = (tasks b)[i := t], trace = trace b @ evs\<rparr>)
          else b)"

definition run :: "generation \<Rightarrow> host \<Rightarrow> json option \<Rightarrow> build \<Rightarrow> action list \<Rightarrow> build" where
  "run g h pluginOptions b acts = foldl (step g h pluginOptions) b acts"

text \<open>The programs created during a build, in order.\<close>

fun programs_created :: "event list \<Rightarrow> Program list" where
  "programs_created [] = []"
| "programs_created (Warned m l # evs) = programs_created evs"
| "programs_created (CreatedProgram p # evs) = p # programs_created evs"

text \<open>
  A build whose calls do not overlap: every call of \<^verbatim>\<open>transform\<close> is
  resumed to its end (two resumptions at most) before the bundler makes its next call.
  \<open>sequential n calls\<close> is that schedule, for a build that has \<open>n\<close> tasks so far.
\<close>

datatype call =
    OptionsCall "InputOption option"
  | TransformCall string string

fun sequential :: "nat \<Rightarrow> call list \<Rightarrow> action list" where
  "sequential n [] = []"
| "sequential n (OptionsCall i # calls) = CallOptions i # sequential n calls"
| "sequential n (TransformCall source ident # calls) =
     CallTransform source ident # Resume n # Resume n # sequential (Suc n) calls"

section \<open>Reading the results of the reporter and of a build\<close>

text \<open>
  The object the reporter throws for a diagnostic, and the warnings it sends to a
  context for a sequence of diagnostics: those of category Warning that come before
  the first of category Error.
\<close>

definition failure_of :: "host \<Rightarrow> Diagnostic \<Rightarrow> Failure" where
  "failure_of h d =
     \<lparr>message = flattenDiagnosticMessageText h (messageText d), fail_id = diag_id d,
      loc = diag_loc h d, frame = diag_frame h d\<rparr>"

definition warnings_of :: "host \<Rightarrow> Diagnostic list \<Rightarrow> event list" where
  "warnings_of h ds =
     map (\<lambda>d. Warned (flattenDiagnosticMessageText h (messageText d)) (diag_loc h d))
       (filter (\<lambda>d. category d = Warning) (takeWhile (\<lambda>d. category d \<noteq> Error) ds))"

text \<open>
  A build whose calls do not overlap, as a function of the calls alone: each
  \<^verbatim>\<open>transform\<close> runs to its end on the state the call before it left.
\<close>

fun run_calls ::
  "generation \<Rightarrow> host \<Rightarrow> json option \<Rightarrow> plugin_state \<times> event list \<Rightarrow> call list
     \<Rightarrow> plugin_state \<times> event list" where
  "run_calls g h pluginOptions (st, tr) [] = (st, tr)"
| "run_calls g h pluginOptions (st, tr) (OptionsCall i # calls) =
     run_calls g h pluginOptions (options st i, tr) calls"
| "run_calls g h pluginOptions (st, tr) (TransformCall source ident # calls) =
     (case transform g h pluginOptions st source ident of
        (st', evs, out) \<Rightarrow> run_calls g h pluginOptions (st', tr @ evs) calls)"

text \<open>Resuming the task that a call or a resumption has left.\<close>

definition resume_on ::
  "generation \<Rightarrow> host \<Rightarrow> json option \<Rightarrow> plugin_state \<times> event list \<times> task
     \<Rightarrow> plugin_state \<times> event list \<times> task" where
  "resume_on g h pluginOptions r =
     (case r of
        (st, evs, t) \<Rightarrow>
          (case resume g h pluginOptions st t of
             (st', evs', t') \<Rightarrow> (st', evs @ evs', t')))"

text \<open>
  The invariant of a build without overlap: the programs created so far are none
  while \<^verbatim>\<open>program\<close> is unset, and the one it holds afterwards.
\<close>

definition built_once :: "plugin_state \<times> event list \<Rightarrow> bool" where
  "built_once r =
     (case st_program (fst r) of
        None \<Rightarrow> programs_created (snd r) = []
      | Some p \<Rightarrow> programs_created (snd r) = [p])"

section \<open>An example host\<close>

text \<open>
  A small project to evaluate the definitions on: a working directory
  \<^verbatim>\<open>/project\<close> with four modules under \<^verbatim>\<open>src\<close>, one declaration
  file, and a \<^verbatim>\<open>tsconfig.json\<close> that sets \<^verbatim>\<open>strict\<close>. The
  path functions agree with Node's on the paths used below; the compiler functions are
  stand-ins that answer for this project only.
\<close>

definition example_lineAndCharacter :: "SourceFile \<Rightarrow> nat \<Rightarrow> LineAndCharacter" where
  "example_lineAndCharacter f pos =
     (let before = take pos (fileText f)
      in \<lparr>lc_line = length (filter (\<lambda>c. c = CHR 0x0A) before),
          character = length (takeWhile (\<lambda>c. c \<noteq> CHR 0x0A) (rev before))\<rparr>)"

fun nth_line :: "string \<Rightarrow> nat \<Rightarrow> string" where
  "nth_line txt 0 = takeWhile (\<lambda>c. c \<noteq> CHR 0x0A) txt"
| "nth_line txt (Suc n) = nth_line (tl (dropWhile (\<lambda>c. c \<noteq> CHR 0x0A) txt)) n"

definition strict_config_text :: string where
  \<open>strict_config_text = ''{"compilerOptions":{"strict":true}}''\<close>

definition options_of_json :: "json \<Rightarrow> CompilerOptions" where
  "options_of_json j =
     (case j of
        JObject kvs \<Rightarrow>
          map_of (List.map_filter
            (\<lambda>(k, v). case v of JBool b \<Rightarrow> Some (k, VBool b)
                           | JNumber n \<Rightarrow> Some (k, VNumber n)
                           | JString s \<Rightarrow> Some (k, VString s)
                           | _ \<Rightarrow> None) kvs)
      | _ \<Rightarrow> Map.empty)"

definition example_host :: host where
  "example_host =
     \<lparr>access = (\<lambda>p. p \<in> set [''/project/src/a.ts'', ''/project/src/b.ts'',
                              ''/project/src/util.ts'', ''/project/src/lib/index.tsx'']),
      path_resolve = (\<lambda>d f. d @ ''/'' @ (if take 2 f = ''./'' then drop 2 f else f)),
      path_dirname = (\<lambda>p. rev (tl (dropWhile (\<lambda>c. c \<noteq> CHR ''/'') (rev p)))),
      path_join = (\<lambda>a b. (if take 2 a = ''./'' then drop 2 a else a) @ ''/'' @ b),
      readFile = (\<lambda>f. if f = ''tsconfig.json'' then Contents strict_config_text
                       else ReadFailed \<lparr>errno_code = Some ''ENOENT'',
                                         errno_message = ''no such file or directory''\<rparr>),
      glob_declarations = [''types/globals.d.ts''],
      convertCompilerOptionsFromJson =
        (\<lambda>j. \<lparr>parsed_options = options_of_json j, parsed_errors = []\<rparr>),
      parseConfigFileTextToJson =
        (\<lambda>name txt.
           if txt = strict_config_text
           then \<lparr>parse_config = JObject [(''compilerOptions'', JObject [(''strict'', JBool True)])],
                 parse_error = None\<rparr>
           else \<lparr>parse_config = JNull,
                 parse_error = Some \<lparr>messageText = Text ''Unexpected token.'', category = Error,
                                       diag_file = None, start = None\<rparr>\<rparr>),
      parseJsonConfigFileContent =
        (\<lambda>j. case j of
               JObject kvs \<Rightarrow>
                 (case map_of kvs ''compilerOptions'' of
                    Some co \<Rightarrow> \<lparr>parsed_options = options_of_json co, parsed_errors = []\<rparr>
                  | None \<Rightarrow> \<lparr>parsed_options = Map.empty, parsed_errors = []\<rparr>)
             | _ \<Rightarrow> \<lparr>parsed_options = Map.empty, parsed_errors = []\<rparr>),
      flattenDiagnosticMessageText =
        (\<lambda>m. case m of Text s \<Rightarrow> s | Chained (MessageChain s kids) \<Rightarrow> s),
      getLineAndCharacterOfPosition = example_lineAndCharacter,
      getSourceFile =
        (\<lambda>p f. if f \<in> set (rootNames p)
                then Some \<lparr>fileName = f, fileText = ''export const x = 1;''\<rparr> else None),
      getPreEmitDiagnostics = (\<lambda>p f. []),
      transpileModule = (\<lambda>source co. \<lparr>outputText = source, sourceMapText = Some ''{}''\<rparr>),
      JSON_parse = (\<lambda>s. if s = ''{}'' then Some (JObject []) else None),
      getCodeFrame = (\<lambda>txt l c. nth_line txt (l - 1))\<rparr>"

text \<open>
  Variants of the project: a \<^verbatim>\<open>tsconfig.json\<close> whose text is not JSON,
  and no \<^verbatim>\<open>tsconfig.json\<close> at all.
\<close>

definition malformed_host :: host where
  "malformed_host = example_host\<lparr>readFile := (\<lambda>f. Contents ''{ compilerOptions: '')\<rparr>"

definition missing_host :: host where
  "missing_host = example_host\<lparr>readFile := (\<lambda>f. ReadFailed \<lparr>errno_code = Some ''ENOENT'',
       errno_message = ''no such file or directory''\<rparr>)\<rparr>"

text \<open>
  Two diagnostics of the compiler: one on the first character of a file (offset 0), one
  on the second line of a file.
\<close>

definition first_char_diagnostic :: Diagnostic where
  "first_char_diagnostic =
     \<lparr>messageText = Text ''Cannot find name foo.'', category = Error,
      diag_file = Some \<lparr>fileName = ''/project/src/a.ts'', fileText = ''foo();''\<rparr>,
      start = Some 0\<rparr>"

definition second_line_diagnostic :: Diagnostic where
  "second_line_diagnostic =
     \<lparr>messageText = Text ''Type string is not assignable to type number.'', category = Error,
      diag_file = Some \<lparr>fileName = ''/project/src/a.ts'',
                         fileText = ''let a = 1;\<newline>const n: number = 0;''\<rparr>,
      start = Some 17\<rparr>"

text \<open>
  A disk that holds one file only, named \<^verbatim>\<open>utilundefined\<close>, and a warning
  of the compiler on the first line of a file.
\<close>

definition stray_host :: host where
  "stray_host = example_host\<lparr>access := (\<lambda>p. p = ''/project/src/utilundefined'')\<rparr>"

definition unused_import_warning :: Diagnostic where
  "unused_import_warning =
     \<lparr>messageText = Text ''b is declared but never used.'', category = Warning,
      diag_file = Some \<lparr>fileName = ''/project/src/a.ts'',
                         fileText = ''let a = 1;\<newline>const n: number = 0;''\<rparr>,
      start = Some 4\<rparr>"

text \<open>
  A project whose \<^verbatim>\<open>tsconfig.json\<close> is a directory: the read fails with
  the code EISDIR.
\<close>

definition unreadable_host :: host where
  "unreadable_host = example_host\<lparr>readFile := (\<lambda>f. ReadFailed \<lparr>errno_code = Some ''EISDIR'',
       errno_message = ''EISDIR: illegal operation on a directory, read''\<rparr>)\<rparr>"

text \<open>
  A build with two entry points whose two calls of \<^verbatim>\<open>transform\<close>
  overlap: both are made before either is resumed.
\<close>

definition overlapping_build :: "action list" where
  "overlapping_build =
     [CallOptions (Some (InputArray [''/project/src/a.ts'', ''/project/src/b.ts''])),
      CallTransform ''export const x = 1;'' ''/project/src/a.ts'',
      CallTransform ''export const y = 2;'' ''/project/src/b.ts'',
      Resume 0, Resume 1, Resume 0, Resume 1]"

section \<open>The model of \<open>path.extname\<close> on Node's documented examples\<close>

lemma extname_examples:
  "extname ''index.html'' = ''.html''"
  "extname ''index.coffee.md'' = ''.md''"
  "extname ''index.'' = ''.''"
  "extname ''index'' = []"
  "extname ''.index'' = []"
  "extname ''.index.md'' = ''.md''"
  "extname ''file.ext/'' = ''.ext''"
  "extname ''a.b/c'' = []"
  "extname ''..'' = []"
  by (simp_all add: extname_def lastComponent_def)

section \<open>Module resolver: results\<close>

lemma resolve_loop_find:
  "resolve_loop h exts importee importer =
     find (access h) (map (\<lambda>ext. path_resolve h (path_dirname h importer) (importee @ ext)) exts)"
  by (induction exts) (simp_all add: Let_def)

lemma js_or_nonempty:
  "a \<noteq> Some [] \<Longrightarrow> js_or a b = (case a of None \<Rightarrow> b | Some s \<Rightarrow> Some s)"
  by (auto simp: js_or_def split: option.splits)

lemma find_Some_nonempty: "\<forall>x \<in> set xs. x \<noteq> [] \<Longrightarrow> find P xs \<noteq> Some []"
  by (induction xs) auto

lemma find_append_case:
  "find P (xs @ ys) = (case find P xs of None \<Rightarrow> find P ys | Some x \<Rightarrow> Some x)"
  by (induction xs) simp_all

lemma isTsFile_nonempty: "isTsFile imp \<Longrightarrow> imp \<noteq> []"
  by (auto simp: isTsFile_def extname_def lastComponent_def extensions_def)

text \<open>
  C4. In src/index.ts, for a specifier with no extension and an importer whose extension
  is \<open>.ts\<close> or \<open>.tsx\<close>, \<open>resolveId\<close> returns the first path that exists
  among four candidates, in this order: the specifier with \<open>.ts\<close>, with
  \<open>.tsx\<close>, then \<^verbatim>\<open>path.join(importee, 'index')\<close> with \<open>.ts\<close> and with
  \<open>.tsx\<close>, each resolved against the importer's directory; it returns
  \<^verbatim>\<open>undefined\<close> when none exists. It returns \<^verbatim>\<open>undefined\<close> as
  well when the specifier has an extension, or the importer is absent, empty or not
  recognised. The result is a value in every case; no branch raises. The hypothesis
  says that \<^verbatim>\<open>path.resolve\<close> never yields the empty string (it yields
  an absolute path).
\<close>

theorem C4_resolveId:
  assumes "\<forall>d f. path_resolve h d f \<noteq> []"
  shows "(extname importee = [] \<and> isTsFile imp \<longrightarrow>
            resolveId h importee (Some imp) =
              find (access h)
                [path_resolve h (path_dirname h imp) (importee @ ''.ts''),
                 path_resolve h (path_dirname h imp) (importee @ ''.tsx''),
                 path_resolve h (path_dirname h imp) (path_join h importee ''index'' @ ''.ts''),
                 path_resolve h (path_dirname h imp) (path_join h importee ''index'' @ ''.tsx'')]) \<and>
         (extname importee \<noteq> [] \<or> importer = None \<or> importer = Some [] \<or>
            (\<exists>imp. importer = Some imp \<and> \<not> isTsFile imp) \<longrightarrow>
            resolveId h importee importer = None)"
proof (intro conjI impI)
  assume a: "extname importee = [] \<and> isTsFile imp"
  let ?d = "path_dirname h imp"
  let ?direct = "[path_resolve h ?d (importee @ ''.ts''), path_resolve h ?d (importee @ ''.tsx'')]"
  let ?index = "[path_resolve h ?d (path_join h importee ''index'' @ ''.ts''),
                 path_resolve h ?d (path_join h importee ''index'' @ ''.tsx'')]"
  have r1: "resolve h importee imp = find (access h) ?direct"
    by (simp add: resolve_def resolve_loop_find extensions_def)
  have r2: "resolve h (path_join h importee ''index'') imp = find (access h) ?index"
    by (simp add: resolve_def resolve_loop_find extensions_def)
  have ne: "find (access h) ?direct \<noteq> Some []"
    using assms by (intro find_Some_nonempty) simp
  have "resolveId h importee (Some imp) =
          js_or (find (access h) ?direct) (find (access h) ?index)"
    using a isTsFile_nonempty [of imp] by (simp add: resolveId_def r1 r2)
  also have "\<dots> = (case find (access h) ?direct of
                      None \<Rightarrow> find (access h) ?index | Some s \<Rightarrow> Some s)"
    using ne by (rule js_or_nonempty)
  also have "\<dots> = find (access h) (?direct @ ?index)"
    by (simp only: find_append_case)
  finally show "resolveId h importee (Some imp) =
              find (access h)
                [path_resolve h (path_dirname h imp) (importee @ ''.ts''),
                 path_resolve h (path_dirname h imp) (importee @ ''.tsx''),
                 path_resolve h (path_dirname h imp) (path_join h importee ''index'' @ ''.ts''),
                 path_resolve h (path_dirname h imp) (path_join h importee ''index'' @ ''.tsx'')]"
    by simp
next
  assume "extname importee \<noteq> [] \<or> importer = None \<or> importer = Some [] \<or>
            (\<exists>imp. importer = Some imp \<and> \<not> isTsFile imp)"
  then show "resolveId h importee importer = None"
    by (auto simp: resolveId_def split: option.splits)
qed

lemma example_resolve_nonempty: "\<forall>d f. path_resolve example_host d f \<noteq> []"
  by (simp add: example_host_def)

lemma example_extnames:
  "extname ''./b'' = []" "extname ''./lib'' = []" "extname ''./missing'' = []"
  "extname ''./util.js'' = ''.js''" "extname ''./util.js/'' = ''.js''"
  "isTsFile ''/project/src/a.ts''" "isTsFile_remap ''/project/src/a.ts''"
  "\<not> isTsFile ''/project/src/a.js''"
  by (simp_all add: extname_def lastComponent_def isTsFile_def isTsFile_remap_def
      extensions_def tsExtensions_def)

theorem C4_witness:
  "resolveId example_host ''./b'' (Some ''/project/src/a.ts'') = Some ''/project/src/b.ts'' \<and>
   resolveId example_host ''./lib'' (Some ''/project/src/a.ts'')
     = Some ''/project/src/lib/index.tsx'' \<and>
   resolveId example_host ''./missing'' (Some ''/project/src/a.ts'') = None \<and>
   resolveId example_host ''./util.js'' (Some ''/project/src/a.ts'') = None \<and>
   resolveId example_host ''./b'' None = None \<and>
   resolveId example_host ''./b'' (Some ''/project/src/a.js'') = None"
proof -
  note c = C4_resolveId [OF example_resolve_nonempty]
  have 1: "resolveId example_host ''./b'' (Some ''/project/src/a.ts'') = Some ''/project/src/b.ts''"
    using c [of "''./b''" "''/project/src/a.ts''"] example_extnames
    by (simp add: example_host_def)
  have 2: "resolveId example_host ''./lib'' (Some ''/project/src/a.ts'')
     = Some ''/project/src/lib/index.tsx''"
    using c [of "''./lib''" "''/project/src/a.ts''"] example_extnames
    by (simp add: example_host_def)
  have 3: "resolveId example_host ''./missing'' (Some ''/project/src/a.ts'') = None"
    using c [of "''./missing''" "''/project/src/a.ts''"] example_extnames
    by (simp add: example_host_def)
  have 4: "resolveId example_host ''./util.js'' (Some ''/project/src/a.ts'') = None"
    using c [of "''./util.js''" _ "Some ''/project/src/a.ts''"] example_extnames by simp
  have 5: "resolveId example_host ''./b'' None = None"
    using c [of "''./b''" _ None] by simp
  have 6: "resolveId example_host ''./b'' (Some ''/project/src/a.js'') = None"
    using c [of "''./b''" _ "Some ''/project/src/a.js''"] example_extnames by simp
  from 1 2 3 4 5 6 show ?thesis by simp
qed

text \<open>
  C5, at the input where the resolver departs from it. The importee
  \<^verbatim>\<open>./util.js/\<close> has the extension \<open>.js\<close>, a key of the table, so the
  resolver goes on; the pattern of the replacement then matches \<^verbatim>\<open>.js/\<close>,
  which is no key, and the text \<^verbatim>\<open>undefined\<close> is substituted, not
  \<open>.ts\<close>: a file of that name is returned when it exists, and the existing
  \<^verbatim>\<open>util.ts\<close> is not found.
\<close>

theorem C5_trailing_slash_substitutes_undefined:
  "extname ''./util.js/'' = ''.js'' \<and>
   map_of jsExtensions ''.js'' = Some ''.ts'' \<and>
   replaceExtension ''./util.js/'' = ''./utilundefined'' \<and>
   resolveId_remap stray_host ''./util.js/'' (Some ''/project/src/a.ts'')
     = Some ''/project/src/utilundefined'' \<and>
   resolveId_remap example_host ''./util.js/'' (Some ''/project/src/a.ts'') = None \<and>
   access example_host ''/project/src/util.ts''"
  by (simp add: extname_def lastComponent_def jsExtensions_def replaceExtension_def
      resolveId_remap_def resolve_remap_def isTsFile_remap_def tsExtensions_def
      stray_host_def example_host_def)

text \<open>
  For an importee that does not end in a slash the substitution is the paired
  extension: the importee ends with its extension, and the rewritten importee is the
  same stem with the paired extension.
\<close>

lemma takeWhile_takeWhile:
  "takeWhile P (takeWhile Q xs) = takeWhile (\<lambda>x. P x \<and> Q x) xs"
  by (induction xs) auto

lemma lastComponent_no_trailing_slash:
  assumes "s \<noteq> []" "last s \<noteq> CHR ''/''"
  shows "lastComponent s = rev (takeWhile (\<lambda>c. c \<noteq> CHR ''/'') (rev s))"
proof -
  have "rev s \<noteq> []" "hd (rev s) \<noteq> CHR ''/''"
    using assms by (simp_all add: hd_rev)
  then have "dropWhile (\<lambda>c. c = CHR ''/'') (rev s) = rev s"
    by (cases "rev s") auto
  then show ?thesis by (simp add: lastComponent_def)
qed

lemma extname_cases: "extname s = [] \<or> (\<exists>e. extname s = CHR ''.'' # e \<and>
    e = rev (takeWhile (\<lambda>c. c \<noteq> CHR ''.'') (rev (lastComponent s))) \<and> CHR ''.'' \<in> set (lastComponent s))"
  by (auto simp: extname_def Let_def)

lemma key_shape:
  "map_of jsExtensions x = Some t \<Longrightarrow> \<exists>e. x = CHR ''.'' # e \<and> e \<noteq> [] \<and> CHR ''/'' \<notin> set e"
  by (auto simp: jsExtensions_def split: if_splits)

lemma takeWhile_first_dot:
  assumes "CHR ''.'' \<in> set (takeWhile (\<lambda>c. c \<noteq> CHR ''/'') xs)"
  shows "takeWhile (\<lambda>c. c \<noteq> CHR ''.'' \<and> c \<noteq> CHR ''/'') xs = takeWhile (\<lambda>c. c \<noteq> CHR ''.'') xs"
  using assms by (induction xs) (auto split: if_splits)

lemma split_at_last_dot:
  assumes "CHR ''.'' \<in> set s"
  shows "s = take (length s - Suc (length (takeWhile (\<lambda>c. c \<noteq> CHR ''.'') (rev s)))) s
            @ CHR ''.'' # rev (takeWhile (\<lambda>c. c \<noteq> CHR ''.'') (rev s))"
proof -
  let ?t = "takeWhile (\<lambda>c. c \<noteq> CHR ''.'') (rev s)"
  let ?d = "dropWhile (\<lambda>c. c \<noteq> CHR ''.'') (rev s)"
  have "CHR ''.'' \<in> set (rev s)" using assms by simp
  then have "?d \<noteq> []" by auto
  moreover have "?d \<noteq> [] \<Longrightarrow> hd ?d = CHR ''.''"
    using hd_dropWhile [of "\<lambda>c. c \<noteq> CHR ''.''" "rev s"] by simp
  ultimately obtain r where r: "?d = CHR ''.'' # r" by (cases ?d) auto
  have "rev s = ?t @ CHR ''.'' # r" using r takeWhile_dropWhile_id [of "\<lambda>c. c \<noteq> CHR ''.''" "rev s"] by simp
  then have s: "s = rev r @ CHR ''.'' # rev ?t"
    by (metis rev_append rev_rev_ident rev.simps(2) append_assoc append_Cons append_Nil)
  have "length s = length r + Suc (length ?t)" using arg_cong [OF s, of length] by simp
  then have "take (length s - Suc (length ?t)) s = rev r"
    using s by (metis add_diff_cancel_right' append_eq_conv_conj length_rev)
  with s show ?thesis by simp
qed

lemma replaceExtension_paired:
  assumes nz: "importee \<noteq> []" and nt: "last importee \<noteq> CHR ''/''"
      and k: "map_of jsExtensions (extname importee) = Some t"
  shows "\<exists>stem. importee = stem @ extname importee \<and> replaceExtension importee = stem @ t"
proof -
  let ?b = "lastComponent importee"
  from key_shape [OF k] obtain e where e: "extname importee = CHR ''.'' # e" "e \<noteq> []" by blast
  with extname_cases [of importee]
  have eb: "e = rev (takeWhile (\<lambda>c. c \<noteq> CHR ''.'') (rev ?b))" and db: "CHR ''.'' \<in> set ?b"
    by auto
  have b: "rev ?b = takeWhile (\<lambda>c. c \<noteq> CHR ''/'') (rev importee)"
    using lastComponent_no_trailing_slash [OF nz nt] by simp
  have d: "CHR ''.'' \<in> set (takeWhile (\<lambda>c. c \<noteq> CHR ''/'') (rev importee))"
    using db b by (metis set_rev)
  have tw: "takeWhile (\<lambda>c. c \<noteq> CHR ''.'') (rev ?b) = takeWhile (\<lambda>c. c \<noteq> CHR ''.'') (rev importee)"
    by (simp only: b takeWhile_takeWhile takeWhile_first_dot [OF d])
  have ee: "e = rev (takeWhile (\<lambda>c. c \<noteq> CHR ''.'') (rev importee))"
    using eb tw by simp
  have ds: "CHR ''.'' \<in> set importee"
    using d by (metis set_takeWhileD set_rev)
  let ?stem = "take (length importee - Suc (length e)) importee"
  have sp: "importee = ?stem @ CHR ''.'' # e"
    using split_at_last_dot [OF ds] ee by simp
  have "replaceExtension importee = ?stem @ t"
    using ds e k ee by (simp add: replaceExtension_def Let_def)
  with sp e show ?thesis by metis
qed

text \<open>
  So, for an importee that does not end in a slash and a recognised importer, the
  resolver of part_000 tries the one path with the paired extension and returns it
  when it exists; and it defers whenever the importee's extension is not in the
  table, or the importer is absent or not recognised.
\<close>

lemma resolveId_remap_paired:
  assumes "importee \<noteq> []" "last importee \<noteq> CHR ''/''"
      and "map_of jsExtensions (extname importee) = Some t"
      and "isTsFile_remap imp"
  shows "\<exists>stem. importee = stem @ extname importee \<and>
           resolveId_remap h importee (Some imp) =
             (if access h (path_resolve h (path_dirname h imp) (stem @ t))
              then Some (path_resolve h (path_dirname h imp) (stem @ t)) else None)"
proof -
  from replaceExtension_paired [OF assms(1-3)] obtain stem where
    s: "importee = stem @ extname importee" "replaceExtension importee = stem @ t"
    by blast
  have "imp \<noteq> []"
    using assms(4) by (auto simp: isTsFile_remap_def extname_def lastComponent_def tsExtensions_def)
  then have "resolveId_remap h importee (Some imp) =
             (if access h (path_resolve h (path_dirname h imp) (stem @ t))
              then Some (path_resolve h (path_dirname h imp) (stem @ t)) else None)"
    using assms(3,4) s(2) by (simp add: resolveId_remap_def resolve_remap_def Let_def)
  with s(1) show ?thesis by blast
qed

lemma resolveId_remap_defers:
  "map_of jsExtensions (extname importee) = None \<or> importer = None \<or>
     (\<exists>imp. importer = Some imp \<and> \<not> isTsFile_remap imp)
   \<Longrightarrow> resolveId_remap h importee importer = None"
  by (auto simp: resolveId_remap_def resolve_remap_def split: option.splits)

lemma paired_extensions:
  "map_of jsExtensions x = Some t \<longleftrightarrow>
     (x = ''.js'' \<and> t = ''.ts'') \<or> (x = ''.jsx'' \<and> t = ''.tsx'') \<or>
     (x = ''.cjs'' \<and> t = ''.cts'') \<or> (x = ''.mjs'' \<and> t = ''.mts'')"
  by (auto simp: jsExtensions_def)

lemma example_remap:
  "resolveId_remap example_host ''./util.js'' (Some ''/project/src/a.ts'')
     = Some ''/project/src/util.ts''"
  by (simp add: resolveId_remap_def resolve_remap_def example_extnames replaceExtension_def
      jsExtensions_def example_host_def)

section \<open>Config resolver: results\<close>

lemma getCompilerOptions_Inr:
  "getCompilerOptions ov h po = Inr c \<longleftrightarrow>
     (\<exists>parsed. loadParsed h po = Inr parsed \<and> parsed_errors parsed = [] \<and>
        c = parsed_options parsed ++ ov)"
  by (auto simp: getCompilerOptions_def split: sum.splits)

lemma getCompilerOptions_Inl:
  "getCompilerOptions ov h po = Inl ds \<longleftrightarrow>
     (loadParsed h po = Inl ds \<or>
      (\<exists>parsed. loadParsed h po = Inr parsed \<and> parsed_errors parsed = ds \<and> ds \<noteq> []))"
  by (auto simp: getCompilerOptions_def split: sum.splits)

lemma loadParsed_Inl_nonempty: "loadParsed h po = Inl ds \<Longrightarrow> ds \<noteq> []"
  by (auto simp: loadParsed_def Let_def split: option.splits read_result.splits if_splits)

lemma overlay_values:
  "(m ++ compilerOptions) ''importHelpers'' = Some (VBool True)"
  "(m ++ compilerOptions) ''sourceMap'' = Some (VBool True)"
  "(m ++ compilerOptions) ''module'' = Some (VModule ES2022)"
  "(m ++ compilerOptions) ''moduleResolution'' = Some (VModuleResolution Bundler)"
  by (simp_all add: compilerOptions_def map_add_def)

lemma overlay_values_index:
  "(m ++ compilerOptions_index) ''importHelpers'' = Some (VBool True)"
  "(m ++ compilerOptions_index) ''sourceMap'' = Some (VBool True)"
  "(m ++ compilerOptions_index) ''module'' = Some (VModule ES2022)"
  "(m ++ compilerOptions_index) ''moduleResolution'' = Some (VModuleResolution NodeJs)"
  by (simp_all add: compilerOptions_index_def map_add_def)

lemma loadParsed_options:
  assumes "loadParsed h pluginOptions = Inr parsed"
  shows "parsed_options parsed k =
           (case pluginOptions of
              Some co \<Rightarrow> parsed_options (convertCompilerOptionsFromJson h co) k
            | None \<Rightarrow>
                (case readFile h configFilename of
                   ReadFailed e \<Rightarrow> None
                 | Contents txt \<Rightarrow>
                     if txt = [] then None
                     else parsed_options (parseJsonConfigFileContent h
                            (parse_config (parseConfigFileTextToJson h configFilename txt))) k))"
  using assms
  by (auto simp: loadParsed_def Let_def split: option.splits read_result.splits if_splits)

lemma getCompilerOptions_strict_file:
  assumes "readFile h configFilename = Contents txt" "txt \<noteq> []"
      and "parse_error (parseConfigFileTextToJson h configFilename txt) = None"
      and "parseJsonConfigFileContent h (parse_config (parseConfigFileTextToJson h configFilename txt))
             = \<lparr>parsed_options = m, parsed_errors = []\<rparr>"
  shows "getCompilerOptions ov h None = Inr (m ++ ov)"
  using assms by (simp add: getCompilerOptions_def loadParsed_def)

text \<open>
  C2, amended. Whenever configuration resolution returns (from explicit options, from a
  config file, or with no config file), the result holds the overlay of its generation:
  \<open>importHelpers\<close> and \<open>sourceMap\<close> true and \<open>module\<close> ES2022 in both, and
  \<open>moduleResolution\<close> \<open>Bundler\<close> in part_000 but \<open>NodeJs\<close> in src/index.ts.
  On every key of the overlay the result has the overlay's value, whatever was loaded;
  on every other key it has the value the compiler's conversion of the explicit
  options, or its resolution of the parsed config file, gave (none without a file).
  In particular, when the compiler reads the config file as \<open>strict: true\<close> with
  no diagnostic, the result is \<open>strict: true\<close> together with the overlay.
\<close>

theorem C2_overlay_wins:
  "(getCompilerOptions compilerOptions h pluginOptions = Inr c \<longrightarrow>
      c ''importHelpers'' = Some (VBool True) \<and>
      c ''sourceMap'' = Some (VBool True) \<and>
      c ''module'' = Some (VModule ES2022) \<and>
      c ''moduleResolution'' = Some (VModuleResolution Bundler)) \<and>
   (getCompilerOptions compilerOptions_index h pluginOptions = Inr c \<longrightarrow>
      c ''importHelpers'' = Some (VBool True) \<and>
      c ''sourceMap'' = Some (VBool True) \<and>
      c ''module'' = Some (VModule ES2022) \<and>
      c ''moduleResolution'' = Some (VModuleResolution NodeJs)) \<and>
   (getCompilerOptions ov h pluginOptions = Inr c \<longrightarrow>
      (\<forall>k. c k =
         (case ov k of
            Some v \<Rightarrow> Some v
          | None \<Rightarrow>
              (case pluginOptions of
                 Some co \<Rightarrow> parsed_options (convertCompilerOptionsFromJson h co) k
               | None \<Rightarrow>
                   (case readFile h configFilename of
                      ReadFailed e \<Rightarrow> None
                    | Contents txt \<Rightarrow>
                        if txt = [] then None
                        else parsed_options (parseJsonConfigFileContent h
                               (parse_config (parseConfigFileTextToJson h configFilename txt))) k))))) \<and>
   (readFile h configFilename = Contents txt \<and> txt \<noteq> [] \<and>
    parse_error (parseConfigFileTextToJson h configFilename txt) = None \<and>
    parseJsonConfigFileContent h (parse_config (parseConfigFileTextToJson h configFilename txt))
      = \<lparr>parsed_options = [''strict'' \<mapsto> VBool True], parsed_errors = []\<rparr> \<longrightarrow>
      getCompilerOptions compilerOptions h None
        = Inr ([''strict'' \<mapsto> VBool True] ++ compilerOptions) \<and>
      getCompilerOptions compilerOptions_index h None
        = Inr ([''strict'' \<mapsto> VBool True] ++ compilerOptions_index) \<and>
      ([''strict'' \<mapsto> VBool True] ++ compilerOptions) ''strict'' = Some (VBool True) \<and>
      ([''strict'' \<mapsto> VBool True] ++ compilerOptions_index) ''strict'' = Some (VBool True))"
proof (intro conjI impI allI)
  assume "getCompilerOptions compilerOptions h pluginOptions = Inr c"
  then have "\<exists>parsed :: ParsedOptions. c = parsed_options parsed ++ compilerOptions"
    by (auto simp: getCompilerOptions_Inr)
  then obtain parsed :: ParsedOptions where c: "c = parsed_options parsed ++ compilerOptions" ..
  show "c ''importHelpers'' = Some (VBool True)" by (simp only: c overlay_values)
  show "c ''sourceMap'' = Some (VBool True)" by (simp only: c overlay_values)
  show "c ''module'' = Some (VModule ES2022)" by (simp only: c overlay_values)
  show "c ''moduleResolution'' = Some (VModuleResolution Bundler)" by (simp only: c overlay_values)
next
  assume "getCompilerOptions compilerOptions_index h pluginOptions = Inr c"
  then have "\<exists>parsed :: ParsedOptions. c = parsed_options parsed ++ compilerOptions_index"
    by (auto simp: getCompilerOptions_Inr)
  then obtain parsed :: ParsedOptions where c: "c = parsed_options parsed ++ compilerOptions_index" ..
  show "c ''importHelpers'' = Some (VBool True)" by (simp only: c overlay_values_index)
  show "c ''sourceMap'' = Some (VBool True)" by (simp only: c overlay_values_index)
  show "c ''module'' = Some (VModule ES2022)" by (simp only: c overlay_values_index)
  show "c ''moduleResolution'' = Some (VModuleResolution NodeJs)"
    by (simp only: c overlay_values_index)
next
  fix k
  assume "getCompilerOptions ov h pluginOptions = Inr c"
  then have "\<exists>parsed. loadParsed h pluginOptions = Inr parsed \<and> c = parsed_options parsed ++ ov"
    by (auto simp: getCompilerOptions_Inr)
  then obtain parsed where p: "loadParsed h pluginOptions = Inr parsed"
    and c: "c = parsed_options parsed ++ ov"
    by blast
  have "c k = (case ov k of Some v \<Rightarrow> Some v | None \<Rightarrow> parsed_options parsed k)"
    by (simp add: c map_add_def)
  then show "c k =
         (case ov k of
            Some v \<Rightarrow> Some v
          | None \<Rightarrow>
              (case pluginOptions of
                 Some co \<Rightarrow> parsed_options (convertCompilerOptionsFromJson h co) k
               | None \<Rightarrow>
                   (case readFile h configFilename of
                      ReadFailed e \<Rightarrow> None
                    | Contents txt \<Rightarrow>
                        if txt = [] then None
                        else parsed_options (parseJsonConfigFileContent h
                               (parse_config (parseConfigFileTextToJson h configFilename txt))) k)))"
    by (simp only: loadParsed_options [OF p])
next
  assume a: "readFile h configFilename = Contents txt \<and> txt \<noteq> [] \<and>
    parse_error (parseConfigFileTextToJson h configFilename txt) = None \<and>
    parseJsonConfigFileContent h (parse_config (parseConfigFileTextToJson h configFilename txt))
      = \<lparr>parsed_options = [''strict'' \<mapsto> VBool True], parsed_errors = []\<rparr>"
  then have a1: "readFile h configFilename = Contents txt"
    and a2: "txt \<noteq> []"
    and a3: "parse_error (parseConfigFileTextToJson h configFilename txt) = None"
    and a4: "parseJsonConfigFileContent h (parse_config (parseConfigFileTextToJson h configFilename txt))
      = \<lparr>parsed_options = [''strict'' \<mapsto> VBool True], parsed_errors = []\<rparr>"
    by blast+
  show "getCompilerOptions compilerOptions h None
        = Inr ([''strict'' \<mapsto> VBool True] ++ compilerOptions)"
    by (rule getCompilerOptions_strict_file [OF a1 a2 a3 a4])
  show "getCompilerOptions compilerOptions_index h None
        = Inr ([''strict'' \<mapsto> VBool True] ++ compilerOptions_index)"
    by (rule getCompilerOptions_strict_file [OF a1 a2 a3 a4])
  show "([''strict'' \<mapsto> VBool True] ++ compilerOptions) ''strict'' = Some (VBool True)"
    by (simp add: compilerOptions_def map_add_def)
  show "([''strict'' \<mapsto> VBool True] ++ compilerOptions_index) ''strict'' = Some (VBool True)"
    by (simp add: compilerOptions_index_def map_add_def)
qed

lemma example_strict:
  "getCompilerOptions ov example_host None = Inr ([''strict'' \<mapsto> VBool True] ++ ov)"
  by (simp add: getCompilerOptions_def loadParsed_def example_host_def configFilename_def
      strict_config_text_def options_of_json_def List.map_filter_def)

lemma example_explicit:
  "getCompilerOptions ov example_host
       (Some (JObject [(''sourceMap'', JBool False), (''strict'', JBool True)]))
     = Inr ([''sourceMap'' \<mapsto> VBool False, ''strict'' \<mapsto> VBool True] ++ ov)"
proof -
  have "options_of_json (JObject [(''sourceMap'', JBool False), (''strict'', JBool True)])
          = [''sourceMap'' \<mapsto> VBool False, ''strict'' \<mapsto> VBool True]"
    by (rule ext) (simp add: options_of_json_def List.map_filter_def)
  then show ?thesis
    by (simp add: getCompilerOptions_def loadParsed_def example_host_def)
qed

text \<open>
  The claim as written, at src/index.ts: the configuration resolved from the
  \<open>strict\<close> config file has the module resolution \<open>NodeJs\<close>, not the bundler
  kind.
\<close>

theorem C2_counterexample:
  "getCompilerOptions compilerOptions_index example_host None
     = Inr ([''strict'' \<mapsto> VBool True] ++ compilerOptions_index) \<and>
   ([''strict'' \<mapsto> VBool True] ++ compilerOptions_index) ''moduleResolution''
     = Some (VModuleResolution NodeJs) \<and>
   ([''strict'' \<mapsto> VBool True] ++ compilerOptions_index) ''moduleResolution''
     \<noteq> Some (VModuleResolution Bundler)"
  by (simp add: example_strict overlay_values_index)

theorem C2_witness:
  "getCompilerOptions compilerOptions example_host
       (Some (JObject [(''sourceMap'', JBool False), (''strict'', JBool True)]))
     = Inr ([''sourceMap'' \<mapsto> VBool False, ''strict'' \<mapsto> VBool True] ++ compilerOptions) \<and>
   parsed_options (convertCompilerOptionsFromJson example_host
       (JObject [(''sourceMap'', JBool False), (''strict'', JBool True)])) ''sourceMap''
     = Some (VBool False) \<and>
   ([''sourceMap'' \<mapsto> VBool False, ''strict'' \<mapsto> VBool True] ++ compilerOptions) ''sourceMap''
     = Some (VBool True) \<and>
   ([''sourceMap'' \<mapsto> VBool False, ''strict'' \<mapsto> VBool True] ++ compilerOptions) ''strict''
     = Some (VBool True) \<and>
   ([''sourceMap'' \<mapsto> VBool False, ''strict'' \<mapsto> VBool True] ++ compilerOptions)
       ''moduleResolution'' = Some (VModuleResolution Bundler) \<and>
   getCompilerOptions compilerOptions_index example_host None
     = Inr ([''strict'' \<mapsto> VBool True] ++ compilerOptions_index) \<and>
   ([''strict'' \<mapsto> VBool True] ++ compilerOptions_index) ''strict'' = Some (VBool True) \<and>
   ([''strict'' \<mapsto> VBool True] ++ compilerOptions_index) ''moduleResolution''
     = Some (VModuleResolution NodeJs)"
proof -
  let ?po = "Some (JObject [(''sourceMap'', JBool False), (''strict'', JBool True)])"
  let ?c = "[''sourceMap'' \<mapsto> VBool False, ''strict'' \<mapsto> VBool True] ++ compilerOptions"
  let ?ci = "[''strict'' \<mapsto> VBool True] ++ compilerOptions_index"
  have e: "getCompilerOptions compilerOptions example_host ?po = Inr ?c"
    by (rule example_explicit)
  have i: "getCompilerOptions compilerOptions_index example_host None = Inr ?ci"
    by (rule example_strict)
  have l: "parsed_options (convertCompilerOptionsFromJson example_host
       (JObject [(''sourceMap'', JBool False), (''strict'', JBool True)])) ''sourceMap''
     = Some (VBool False)"
    "parsed_options (convertCompilerOptionsFromJson example_host
       (JObject [(''sourceMap'', JBool False), (''strict'', JBool True)])) ''strict''
     = Some (VBool True)"
    by (simp_all add: example_host_def options_of_json_def List.map_filter_def)
  have o: "compilerOptions ''sourceMap'' = Some (VBool True)" "compilerOptions ''strict'' = None"
    by (simp_all add: compilerOptions_def)
  note t = C2_overlay_wins [where h = example_host and pluginOptions = ?po and c = ?c
      and ov = compilerOptions]
  have 1: "?c ''moduleResolution'' = Some (VModuleResolution Bundler)"
    using t [THEN conjunct1, THEN mp, OF e] by blast
  have k: "?c k =
         (case compilerOptions k of
            Some v \<Rightarrow> Some v
          | None \<Rightarrow> parsed_options (convertCompilerOptionsFromJson example_host
               (JObject [(''sourceMap'', JBool False), (''strict'', JBool True)])) k)" for k
    using t [THEN conjunct2, THEN conjunct2, THEN conjunct1, THEN mp, OF e, THEN spec, of k]
    by (simp only: option.case)
  have 2: "?c ''sourceMap'' = Some (VBool True)" by (simp only: k [of "''sourceMap''"] o option.case)
  have 3: "?c ''strict'' = Some (VBool True)" by (simp only: k [of "''strict''"] o l option.case)
  note u = C2_overlay_wins [where h = example_host and pluginOptions = None and c = ?ci]
  have 4: "?ci ''moduleResolution'' = Some (VModuleResolution NodeJs)"
    using u [THEN conjunct2, THEN conjunct1, THEN mp, OF i] by blast
  have 5: "?ci ''strict'' = Some (VBool True)"
    by (simp add: compilerOptions_index_def map_add_def)
  from e l(1) 1 2 3 i 4 5 show ?thesis by blast
qed

text \<open>
  C3. Configuration resolution rejects exactly when: explicit options are given and
  their conversion reports a diagnostic; or none are given and the read of the config
  file fails with a code other than ENOENT, or the file has a non-empty text whose
  parsing reports an error or whose resolution reports a diagnostic. (An empty text is
  skipped like a missing file; the compiler reads an empty text as the empty
  configuration without an error.) What it rejects with is never the empty sequence,
  and a read that fails with ENOENT makes the resolution return the overlay alone.
\<close>

theorem C3_rejection:
  "((\<exists>ds. getCompilerOptions ov h pluginOptions = Inl ds) \<longleftrightarrow>
      (case pluginOptions of
         Some co \<Rightarrow> parsed_errors (convertCompilerOptionsFromJson h co) \<noteq> []
       | None \<Rightarrow>
           (case readFile h configFilename of
              ReadFailed e \<Rightarrow> errno_code e \<noteq> Some ''ENOENT''
            | Contents txt \<Rightarrow>
                txt \<noteq> [] \<and>
                (parse_error (parseConfigFileTextToJson h configFilename txt) \<noteq> None \<or>
                 parsed_errors (parseJsonConfigFileContent h
                     (parse_config (parseConfigFileTextToJson h configFilename txt))) \<noteq> [])))) \<and>
   (\<forall>ds. getCompilerOptions ov h pluginOptions = Inl ds \<longrightarrow> ds \<noteq> []) \<and>
   (\<forall>e. readFile h configFilename = ReadFailed e \<and> errno_code e = Some ''ENOENT''
        \<longrightarrow> getCompilerOptions ov h None = Inr ov)"
proof (intro conjI allI impI)
  show "(\<exists>ds. getCompilerOptions ov h pluginOptions = Inl ds) \<longleftrightarrow>
      (case pluginOptions of
         Some co \<Rightarrow> parsed_errors (convertCompilerOptionsFromJson h co) \<noteq> []
       | None \<Rightarrow>
           (case readFile h configFilename of
              ReadFailed e \<Rightarrow> errno_code e \<noteq> Some ''ENOENT''
            | Contents txt \<Rightarrow>
                txt \<noteq> [] \<and>
                (parse_error (parseConfigFileTextToJson h configFilename txt) \<noteq> None \<or>
                 parsed_errors (parseJsonConfigFileContent h
                     (parse_config (parseConfigFileTextToJson h configFilename txt))) \<noteq> [])))"
    by (auto simp: getCompilerOptions_def loadParsed_def Let_def
        split: option.splits read_result.splits sum.splits if_splits)
next
  fix ds assume "getCompilerOptions ov h pluginOptions = Inl ds"
  then show "ds \<noteq> []"
    by (auto simp: getCompilerOptions_Inl dest: loadParsed_Inl_nonempty)
next
  fix e assume "readFile h configFilename = ReadFailed e \<and> errno_code e = Some ''ENOENT''"
  then show "getCompilerOptions ov h None = Inr ov"
    by (simp add: getCompilerOptions_def loadParsed_def)
qed

lemma malformed_rejects:
  "getCompilerOptions ov malformed_host None =
     Inl [\<lparr>messageText = Text ''Unexpected token.'', category = Error,
           diag_file = None, start = None\<rparr>]"
  by (simp add: getCompilerOptions_def loadParsed_def malformed_host_def example_host_def
      configFilename_def strict_config_text_def)

theorem C3_witness:
  "getCompilerOptions compilerOptions missing_host None = Inr compilerOptions \<and>
   getCompilerOptions compilerOptions malformed_host None =
     Inl [\<lparr>messageText = Text ''Unexpected token.'', category = Error,
           diag_file = None, start = None\<rparr>] \<and>
   [\<lparr>messageText = Text ''Unexpected token.'', category = Error,
           diag_file = None, start = None\<rparr>] \<noteq> []"
proof -
  have m: "readFile missing_host configFilename =
       ReadFailed \<lparr>errno_code = Some ''ENOENT'', errno_message = ''no such file or directory''\<rparr> \<and>
     errno_code \<lparr>errno_code = Some ''ENOENT'', errno_message = ''no such file or directory''\<rparr>
       = Some ''ENOENT''"
    by (simp add: missing_host_def)
  from C3_rejection [of compilerOptions missing_host None] m
  have "getCompilerOptions compilerOptions missing_host None = Inr compilerOptions"
    by blast
  moreover from C3_rejection [of compilerOptions malformed_host None] malformed_rejects
  have "[\<lparr>messageText = Text ''Unexpected token.'', category = Error,
           diag_file = None, start = None\<rparr>] \<noteq> []"
    by blast
  ultimately show ?thesis using malformed_rejects by simp
qed

section \<open>Diagnostic reporter: results\<close>

lemma diag_loc_Some_iff:
  "diag_loc h d = Some l \<longleftrightarrow>
     (\<exists>f s. diag_file d = Some f \<and> fileName f \<noteq> [] \<and> start d = Some s \<and> s \<noteq> 0 \<and>
        l = \<lparr>loc_file = fileName f,
             line = lc_line (getLineAndCharacterOfPosition h f s) + 1,
             column = character (getLineAndCharacterOfPosition h f s)\<rparr>)"
  by (auto simp: diag_loc_def diag_id_def diag_lc_def split: option.splits if_splits)

lemma diag_frame_None: "diag_loc h d = None \<Longrightarrow> diag_frame h d = None"
  by (simp add: diag_frame_def split: option.splits)

lemma second_line_location:
  "diag_loc example_host second_line_diagnostic
     = Some \<lparr>loc_file = ''/project/src/a.ts'', line = 2, column = 6\<rparr>"
  by (simp add: second_line_diagnostic_def diag_loc_def diag_id_def diag_lc_def example_host_def
      example_lineAndCharacter_def)

text \<open>
  C8, at the input where the reporter departs from it. The diagnostic carries a source
  file and the character offset 0 (the first character of the file: line 1, column 0),
  and the reporter computes no location for it: the error reaches the context with no
  location.
\<close>

theorem C8_offset_zero_has_no_location:
  "diag_file first_char_diagnostic
     = Some \<lparr>fileName = ''/project/src/a.ts'', fileText = ''foo();''\<rparr> \<and>
   start first_char_diagnostic = Some 0 \<and>
   diag_loc example_host first_char_diagnostic = None \<and>
   printDiagnostics example_host [first_char_diagnostic] (Some TransformContext)
     = ([], ContextError ''Cannot find name foo.'' None)"
  by (simp add: first_char_diagnostic_def diag_loc_def diag_id_def diag_lc_def example_host_def)

text \<open>
  C10. A diagnostic whose start offset is absent or 0 gets no location, whether or not
  it carries a source file, and, when the reporter has no context, no code frame: the
  object thrown has neither. A location is produced only for a diagnostic that has a
  source file and a start offset other than 0.
\<close>

theorem C10_no_location_at_offset_zero:
  "(start d = None \<or> start d = Some 0 \<longrightarrow>
      diag_loc h d = None \<and> diag_frame h d = None \<and>
      printDiagnostics h (d # ds) None =
        ([], Thrown \<lparr>message = flattenDiagnosticMessageText h (messageText d),
                     fail_id = diag_id d, loc = None, frame = None\<rparr>)) \<and>
   (diag_loc h d \<noteq> None \<longrightarrow> diag_file d \<noteq> None \<and> (\<exists>s. start d = Some s \<and> s \<noteq> 0))"
proof (intro conjI impI)
  assume a: "start d = None \<or> start d = Some 0"
  then show l: "diag_loc h d = None"
    by (auto simp: diag_loc_def diag_id_def diag_lc_def split: option.splits)
  then show f: "diag_frame h d = None" by (rule diag_frame_None)
  from l f show "printDiagnostics h (d # ds) None =
        ([], Thrown \<lparr>message = flattenDiagnosticMessageText h (messageText d),
                     fail_id = diag_id d, loc = None, frame = None\<rparr>)"
    by simp
next
  assume "diag_loc h d \<noteq> None"
  then obtain l where "diag_loc h d = Some l" by blast
  then show "diag_file d \<noteq> None" by (auto simp: diag_loc_Some_iff)
next
  assume "diag_loc h d \<noteq> None"
  then obtain l where "diag_loc h d = Some l" by blast
  then show "\<exists>s. start d = Some s \<and> s \<noteq> 0" by (auto simp: diag_loc_Some_iff)
qed

theorem C10_witness:
  "start first_char_diagnostic = Some 0 \<and>
   diag_loc example_host first_char_diagnostic = None \<and>
   diag_frame example_host first_char_diagnostic = None \<and>
   printDiagnostics example_host [first_char_diagnostic] None =
     ([], Thrown \<lparr>message = ''Cannot find name foo.'', fail_id = Some ''/project/src/a.ts'',
                  loc = None, frame = None\<rparr>) \<and>
   diag_loc example_host second_line_diagnostic \<noteq> None \<and>
   start second_line_diagnostic = Some 17"
proof -
  have z: "start first_char_diagnostic = None \<or> start first_char_diagnostic = Some 0"
    by (simp add: first_char_diagnostic_def)
  have n: "diag_loc example_host second_line_diagnostic \<noteq> None"
    by (simp add: second_line_location)
  from C10_no_location_at_offset_zero [of first_char_diagnostic example_host "[]"] z
  have "diag_loc example_host first_char_diagnostic = None \<and>
        diag_frame example_host first_char_diagnostic = None \<and>
        printDiagnostics example_host [first_char_diagnostic] None =
          ([], Thrown \<lparr>message = flattenDiagnosticMessageText example_host
                          (messageText first_char_diagnostic),
                       fail_id = diag_id first_char_diagnostic, loc = None, frame = None\<rparr>)"
    by blast
  moreover from C10_no_location_at_offset_zero [of second_line_diagnostic example_host "[]"] n
  have "\<exists>s. start second_line_diagnostic = Some s \<and> s \<noteq> 0" by blast
  ultimately show ?thesis
    using n by (simp add: first_char_diagnostic_def second_line_diagnostic_def diag_id_def
        example_host_def)
qed

text \<open>
  C7, amended. Without a context the reporter throws for the first diagnostic of the
  sequence and so never reaches the others (an empty sequence throws nothing): the
  object holds the flattened message, the file name or null, the location or undefined,
  and the code frame of the file text at the location, or null when the file or the
  location is missing. With a context the diagnostics are handled in order: a Warning
  goes to the warning channel and the loop goes on, a category other than Error and
  Warning is skipped, and the first Error goes to the error channel, which ends the
  call.
\<close>

theorem C7_reporter:
  "printDiagnostics h [] None = ([], Returned) \<and>
   printDiagnostics h (d # ds) None =
     ([], Thrown \<lparr>message = flattenDiagnosticMessageText h (messageText d),
                  fail_id = diag_id d, loc = diag_loc h d, frame = diag_frame h d\<rparr>) \<and>
   diag_frame h d =
     (case (diag_file d, diag_loc h d) of
        (Some f, Some l) \<Rightarrow> Some (getCodeFrame h (fileText f) (line l) (column l))
      | _ \<Rightarrow> None) \<and>
   printDiagnostics h [] (Some c) = ([], Returned) \<and>
   (category d = Error \<longrightarrow>
      printDiagnostics h (d # ds) (Some c) =
        ([], ContextError (flattenDiagnosticMessageText h (messageText d)) (diag_loc h d))) \<and>
   (category d = Warning \<longrightarrow>
      printDiagnostics h (d # ds) (Some c) =
        (Warned (flattenDiagnosticMessageText h (messageText d)) (diag_loc h d)
           # fst (printDiagnostics h ds (Some c)),
         snd (printDiagnostics h ds (Some c)))) \<and>
   (category d \<noteq> Error \<and> category d \<noteq> Warning \<longrightarrow>
      printDiagnostics h (d # ds) (Some c) = printDiagnostics h ds (Some c))"
  by (simp add: diag_frame_def split: option.splits prod.splits)

lemma example_getCodeFrame:
  "getCodeFrame example_host txt l c = nth_line txt (l - 1)"
  by (simp add: example_host_def)

lemma second_line_frame:
  "diag_frame example_host second_line_diagnostic = Some ''const n: number = 0;''"
proof -
  have f: "diag_file second_line_diagnostic
             = Some \<lparr>fileName = ''/project/src/a.ts'',
                      fileText = ''let a = 1;\<newline>const n: number = 0;''\<rparr>"
    by (simp add: second_line_diagnostic_def)
  have n: "nth_line ''let a = 1;\<newline>const n: number = 0;'' (Suc 0) = ''const n: number = 0;''"
    by simp
  show ?thesis
    by (simp add: diag_frame_def f second_line_location example_getCodeFrame n)
qed

lemma second_line_thrown:
  "printDiagnostics example_host [second_line_diagnostic, first_char_diagnostic] None =
     ([], Thrown \<lparr>message = ''Type string is not assignable to type number.'',
                  fail_id = Some ''/project/src/a.ts'',
                  loc = Some \<lparr>loc_file = ''/project/src/a.ts'', line = 2, column = 6\<rparr>,
                  frame = Some ''const n: number = 0;''\<rparr>)"
proof -
  have m: "flattenDiagnosticMessageText example_host (messageText second_line_diagnostic)
              = ''Type string is not assignable to type number.''"
    by (simp add: second_line_diagnostic_def example_host_def)
  have i: "diag_id second_line_diagnostic = Some ''/project/src/a.ts''"
    by (simp add: second_line_diagnostic_def diag_id_def)
  show ?thesis
    by (simp add: m i second_line_location second_line_frame)
qed

theorem C7_counterexample:
  "printDiagnostics example_host [second_line_diagnostic, first_char_diagnostic] None =
     ([], Thrown \<lparr>message = ''Type string is not assignable to type number.'',
                  fail_id = Some ''/project/src/a.ts'',
                  loc = Some \<lparr>loc_file = ''/project/src/a.ts'', line = 2, column = 6\<rparr>,
                  frame = Some ''const n: number = 0;''\<rparr>) \<and>
   printDiagnostics example_host [first_char_diagnostic] None =
     ([], Thrown \<lparr>message = ''Cannot find name foo.'', fail_id = Some ''/project/src/a.ts'',
                  loc = None, frame = None\<rparr>)"
  apply (rule conjI)
   apply (rule second_line_thrown)
  apply (simp add: first_char_diagnostic_def diag_loc_def diag_id_def diag_lc_def diag_frame_def
      example_host_def)
  done

theorem C7_witness:
  "printDiagnostics example_host [unused_import_warning, second_line_diagnostic, first_char_diagnostic]
       (Some TransformContext) =
     ([Warned ''b is declared but never used.''
         (Some \<lparr>loc_file = ''/project/src/a.ts'', line = 1, column = 4\<rparr>)],
      ContextError ''Type string is not assignable to type number.''
         (Some \<lparr>loc_file = ''/project/src/a.ts'', line = 2, column = 6\<rparr>))"
proof -
  have w: "category unused_import_warning = Warning"
    by (simp add: unused_import_warning_def)
  have e: "category second_line_diagnostic = Error"
    by (simp add: second_line_diagnostic_def)
  have lw: "diag_loc example_host unused_import_warning
              = Some \<lparr>loc_file = ''/project/src/a.ts'', line = 1, column = 4\<rparr>"
    by (simp add: unused_import_warning_def diag_loc_def diag_id_def diag_lc_def example_host_def
        example_lineAndCharacter_def)
  have mw: "flattenDiagnosticMessageText example_host (messageText unused_import_warning)
              = ''b is declared but never used.''"
    by (simp add: unused_import_warning_def example_host_def)
  have me: "flattenDiagnosticMessageText example_host (messageText second_line_diagnostic)
              = ''Type string is not assignable to type number.''"
    by (simp add: second_line_diagnostic_def example_host_def)
  from C7_reporter [of example_host second_line_diagnostic "[first_char_diagnostic]" TransformContext] e
  have 1: "printDiagnostics example_host [second_line_diagnostic, first_char_diagnostic]
             (Some TransformContext) =
           ([], ContextError ''Type string is not assignable to type number.''
                  (Some \<lparr>loc_file = ''/project/src/a.ts'', line = 2, column = 6\<rparr>))"
    by (simp only: me second_line_location)
  from C7_reporter [of example_host unused_import_warning
      "[second_line_diagnostic, first_char_diagnostic]" TransformContext] w
  have "printDiagnostics example_host
          [unused_import_warning, second_line_diagnostic, first_char_diagnostic]
          (Some TransformContext) =
        (Warned ''b is declared but never used.''
           (Some \<lparr>loc_file = ''/project/src/a.ts'', line = 1, column = 4\<rparr>)
           # fst (printDiagnostics example_host [second_line_diagnostic, first_char_diagnostic]
                    (Some TransformContext)),
         snd (printDiagnostics example_host [second_line_diagnostic, first_char_diagnostic]
                (Some TransformContext)))"
    by (simp only: mw lw)
  then show ?thesis by (simp only: 1 fst_conv snd_conv)
qed

section \<open>The \<open>options\<close> hook: results\<close>

text \<open>
  C9. A missing input, or the empty string (the falsy values), leaves the whole state as
  it was. A present input replaces the captured entry points and nothing else: a
  non-empty string by the one-element sequence, a sequence by itself, an object by its
  values in order.
\<close>

theorem C9_options_hook:
  "options st None = st \<and>
   options st (Some (InputString [])) = st \<and>
   (s \<noteq> [] \<longrightarrow> options st (Some (InputString s)) = st\<lparr>st_input := [s]\<rparr>) \<and>
   options st (Some (InputArray xs)) = st\<lparr>st_input := xs\<rparr> \<and>
   options st (Some (InputObject kvs)) = st\<lparr>st_input := map snd kvs\<rparr>"
  by (simp add: options_def)

theorem C9_witness:
  "options \<lparr>st_input = [''old.ts''], st_compilerOptions = None, st_program = None\<rparr> None
     = \<lparr>st_input = [''old.ts''], st_compilerOptions = None, st_program = None\<rparr> \<and>
   options \<lparr>st_input = [''old.ts''], st_compilerOptions = None, st_program = None\<rparr>
       (Some (InputString ''main.ts''))
     = \<lparr>st_input = [''main.ts''], st_compilerOptions = None, st_program = None\<rparr> \<and>
   options \<lparr>st_input = [''old.ts''], st_compilerOptions = None, st_program = None\<rparr>
       (Some (InputObject [(''a'', ''src/a.ts''), (''b'', ''src/b.ts'')]))
     = \<lparr>st_input = [''src/a.ts'', ''src/b.ts''], st_compilerOptions = None, st_program = None\<rparr>"
  using C9_options_hook [of "\<lparr>st_input = [''old.ts''], st_compilerOptions = None, st_program = None\<rparr>"
      "''main.ts''" "[]" "[(''a'', ''src/a.ts''), (''b'', ''src/b.ts'')]"]
  by simp

section \<open>The \<open>transform\<close> hook: results\<close>

lemma printDiagnostics_no_context:
  "ds \<noteq> [] \<Longrightarrow> printDiagnostics h ds None = ([], Thrown (failure_of h (hd ds)))"
  by (cases ds) (simp_all add: failure_of_def)

lemma printDiagnostics_context:
  "printDiagnostics h ds (Some c) =
     (warnings_of h ds,
      case find (\<lambda>d. category d = Error) ds of
        None \<Rightarrow> Returned
      | Some e \<Rightarrow> ContextError (flattenDiagnosticMessageText h (messageText e)) (diag_loc h e))"
  by (induction ds) (auto simp: warnings_of_def split: option.splits)

lemma getCompilerOptions_Inl_nonempty: "getCompilerOptions ov h po = Inl ds \<Longrightarrow> ds \<noteq> []"
  by (auto simp: getCompilerOptions_Inl dest: loadParsed_Inl_nonempty)

lemma getCompilerOptions_unreadable:
  assumes "readFile h configFilename = ReadFailed e" "errno_code e \<noteq> Some ''ENOENT''"
  shows "getCompilerOptions ov h None =
           Inl [\<lparr>messageText = Text (errno_message e), category = Error,
                 diag_file = None, start = None\<rparr>]"
  using assms by (simp add: getCompilerOptions_def loadParsed_def)

text \<open>
  C6, amended. When the lazy configuration resolution of a transform fails, the
  diagnostics go to the reporter and the transform ends there. In src/index.ts the
  reporter has no context: it throws the object of the first diagnostic and the
  transform rejects with it. In part_000 the reporter has the context: when a
  diagnostic is of category Error, the first such goes to the error channel and the
  transform is aborted, after the warnings that precede it; the diagnostic the
  resolver builds for a config file that cannot be read is of that category. In these
  cases the state is as it was (the configuration stays unresolved, no program is
  built), nothing is transpiled, and no code or map is returned.
\<close>

theorem C6_config_failure:
  assumes "st_compilerOptions st = None"
  shows "(getCompilerOptions compilerOptions_index h pluginOptions = Inl ds \<and> isTsFile ident \<longrightarrow>
            transform index_ts h pluginOptions st source ident
              = (st, [], Rejected (failure_of h (hd ds)))) \<and>
         (getCompilerOptions compilerOptions h pluginOptions = Inl ds \<and> isTsFile_remap ident \<and>
            find (\<lambda>d. category d = Error) ds = Some e \<longrightarrow>
            transform part_000 h pluginOptions st source ident
              = (st, warnings_of h ds,
                 Aborted (flattenDiagnosticMessageText h (messageText e)) (diag_loc h e))) \<and>
         (readFile h configFilename = ReadFailed err \<and> errno_code err \<noteq> Some ''ENOENT'' \<and>
            isTsFile_remap ident \<longrightarrow>
            transform part_000 h None st source ident
              = (st, [],
                 Aborted (flattenDiagnosticMessageText h (Text (errno_message err))) None))"
proof (intro conjI impI)
  assume a: "getCompilerOptions compilerOptions_index h pluginOptions = Inl ds \<and> isTsFile ident"
  then have "ds \<noteq> []" by (auto dest: getCompilerOptions_Inl_nonempty)
  then have "printDiagnostics h ds None = ([], Thrown (failure_of h (hd ds)))"
    by (rule printDiagnostics_no_context)
  with a assms show "transform index_ts h pluginOptions st source ident
              = (st, [], Rejected (failure_of h (hd ds)))"
    by (simp add: transform_def resolve_config_def index_ts_def)
next
  assume a: "getCompilerOptions compilerOptions h pluginOptions = Inl ds \<and> isTsFile_remap ident \<and>
            find (\<lambda>d. category d = Error) ds = Some e"
  with assms show "transform part_000 h pluginOptions st source ident
              = (st, warnings_of h ds,
                 Aborted (flattenDiagnosticMessageText h (messageText e)) (diag_loc h e))"
    by (simp add: transform_def resolve_config_def part_000_def printDiagnostics_context)
next
  assume a: "readFile h configFilename = ReadFailed err \<and> errno_code err \<noteq> Some ''ENOENT'' \<and>
            isTsFile_remap ident"
  let ?d = "\<lparr>messageText = Text (errno_message err), category = Error,
             diag_file = None, start = None\<rparr>"
  have g: "getCompilerOptions compilerOptions h None = Inl [?d]"
    using a by (simp add: getCompilerOptions_unreadable)
  have l: "diag_loc h ?d = None" by (simp add: diag_loc_def diag_id_def)
  have w: "warnings_of h [?d] = []" by (simp add: warnings_of_def)
  have p: "printDiagnostics h [?d] (Some TransformContext)
             = ([], ContextError (flattenDiagnosticMessageText h (Text (errno_message err))) None)"
    by (simp add: printDiagnostics_context w l)
  show "transform part_000 h None st source ident
              = (st, [],
                 Aborted (flattenDiagnosticMessageText h (Text (errno_message err))) None)"
    using a assms
    by (simp add: transform_def resolve_config_def part_000_def g p del: printDiagnostics.simps)
qed

lemma example_isTsFile: "isTsFile ''/project/src/a.ts''" "isTsFile_remap ''/project/src/a.ts''"
  by (simp_all add: example_extnames)

lemma unreadable_rejects:
  "getCompilerOptions ov unreadable_host None =
     Inl [\<lparr>messageText = Text ''EISDIR: illegal operation on a directory, read'',
           category = Error, diag_file = None, start = None\<rparr>]"
  by (simp add: getCompilerOptions_def loadParsed_def unreadable_host_def)

lemma unreadable_failure:
  "failure_of unreadable_host
     \<lparr>messageText = Text ''EISDIR: illegal operation on a directory, read'',
      category = Error, diag_file = None, start = None\<rparr>
     = \<lparr>message = ''EISDIR: illegal operation on a directory, read'', fail_id = None,
        loc = None, frame = None\<rparr>"
  by (simp add: failure_of_def diag_id_def diag_loc_def diag_frame_def unreadable_host_def
      example_host_def)

text \<open>
  The claim as written, in both generations: \<^verbatim>\<open>tsconfig.json\<close> is a
  directory, so the read fails and the resolver rejects with the one diagnostic it
  builds from the failure (category Error, no file, no offset). The transform of a
  source file then returns no code: in src/index.ts it rejects with the object the
  reporter throws, in part_000 it is aborted by the error channel.
\<close>

theorem C6_counterexample:
  "transform index_ts unreadable_host None initial_state ''export const x = 1;''
       ''/project/src/a.ts''
     = (initial_state, [],
        Rejected \<lparr>message = ''EISDIR: illegal operation on a directory, read'', fail_id = None,
                  loc = None, frame = None\<rparr>) \<and>
   transform part_000 unreadable_host None initial_state ''export const x = 1;''
       ''/project/src/a.ts''
     = (initial_state, [], Aborted ''EISDIR: illegal operation on a directory, read'' None)"
proof -
  let ?d = "\<lparr>messageText = Text ''EISDIR: illegal operation on a directory, read'',
             category = Error, diag_file = None, start = None\<rparr>"
  have i: "st_compilerOptions initial_state = None" by (simp add: initial_state_def)
  have p: "printDiagnostics unreadable_host [?d] None
           = ([], Thrown \<lparr>message = ''EISDIR: illegal operation on a directory, read'',
                          fail_id = None, loc = None, frame = None\<rparr>)"
    by (simp add: diag_id_def diag_loc_def diag_frame_def unreadable_host_def example_host_def)
  have q: "printDiagnostics unreadable_host [?d] (Some TransformContext)
           = ([], ContextError ''EISDIR: illegal operation on a directory, read'' None)"
    by (simp add: diag_id_def diag_loc_def diag_frame_def unreadable_host_def example_host_def)
  show ?thesis
    by (simp add: transform_def resolve_config_def index_ts_def part_000_def i example_isTsFile
        unreadable_rejects p q del: printDiagnostics.simps)
qed

theorem C6_witness:
  "transform index_ts unreadable_host None initial_state ''export const x = 1;''
       ''/project/src/a.ts''
     = (initial_state, [],
        Rejected \<lparr>message = ''EISDIR: illegal operation on a directory, read'', fail_id = None,
                  loc = None, frame = None\<rparr>) \<and>
   transform part_000 unreadable_host None initial_state ''export const x = 1;''
       ''/project/src/a.ts''
     = (initial_state, [], Aborted ''EISDIR: illegal operation on a directory, read'' None) \<and>
   transform part_000 unreadable_host None initial_state ''export const y = 2;''
       ''/project/src/a.ts''
     = (initial_state, [], Aborted ''EISDIR: illegal operation on a directory, read'' None)"
proof -
  let ?m = "''EISDIR: illegal operation on a directory, read''"
  let ?d = "\<lparr>messageText = Text ?m, category = Error, diag_file = None, start = None\<rparr>"
  let ?e = "\<lparr>errno_code = Some ''EISDIR'', errno_message = ?m\<rparr>"
  have i: "st_compilerOptions initial_state = None" by (simp add: initial_state_def)
  have f: "find (\<lambda>d. category d = Error) [?d] = Some ?d" by simp
  have w: "warnings_of unreadable_host [?d] = []" by (simp add: warnings_of_def)
  have m: "flattenDiagnosticMessageText unreadable_host (messageText ?d) = ?m"
    "flattenDiagnosticMessageText unreadable_host (Text (errno_message ?e)) = ?m"
    by (simp_all add: unreadable_host_def example_host_def)
  have l: "diag_loc unreadable_host ?d = None" by (simp add: diag_loc_def diag_id_def)
  have r: "readFile unreadable_host configFilename = ReadFailed ?e \<and>
           errno_code ?e \<noteq> Some ''ENOENT''"
    by (simp add: unreadable_host_def)
  have 1: "transform index_ts unreadable_host None initial_state ''export const x = 1;''
             ''/project/src/a.ts''
           = (initial_state, [], Rejected (failure_of unreadable_host (hd [?d])))"
    using C6_config_failure [OF i, where h = unreadable_host and pluginOptions = None
        and ds = "[?d]" and ident = "''/project/src/a.ts''"]
      unreadable_rejects example_isTsFile by blast
  have 2: "transform part_000 unreadable_host None initial_state ''export const x = 1;''
             ''/project/src/a.ts''
           = (initial_state, warnings_of unreadable_host [?d],
              Aborted (flattenDiagnosticMessageText unreadable_host (messageText ?d))
                (diag_loc unreadable_host ?d))"
    using C6_config_failure [OF i, where h = unreadable_host and pluginOptions = None
        and ds = "[?d]" and ident = "''/project/src/a.ts''" and e = ?d]
      unreadable_rejects example_isTsFile f by blast
  have 3: "transform part_000 unreadable_host None initial_state ''export const y = 2;''
             ''/project/src/a.ts''
           = (initial_state, [],
              Aborted (flattenDiagnosticMessageText unreadable_host (Text (errno_message ?e))) None)"
    using C6_config_failure [OF i, where h = unreadable_host and err = ?e
        and ident = "''/project/src/a.ts''"]
      r example_isTsFile by blast
  show ?thesis
    by (simp only: 1 2 3 w m l unreadable_failure list.sel simp_thms)
qed

text \<open>
  The one path on which the transform of part_000 goes past the reporter after a
  failed resolution: no diagnostic of the rejection is of category Error. The
  configuration is still unset when the program is created, so
  \<^verbatim>\<open>ts.createProgram\<close> raises and the transform rejects: no code is returned
  on this path either.
\<close>

lemma part_000_without_error_diagnostic:
  assumes "st_compilerOptions st = None" "st_program st = None"
      and "getCompilerOptions compilerOptions h pluginOptions = Inl ds"
      and "isTsFile_remap ident"
      and "find (\<lambda>d. category d = Error) ds = None"
  shows "transform part_000 h pluginOptions st source ident = (st, warnings_of h ds, TypeError)"
  using assms
  by (simp add: transform_def resolve_config_def part_000_def printDiagnostics_context
      build_and_emit_def build_program_def)

section \<open>Builds: results\<close>

text \<open>
  A call of \<^verbatim>\<open>transform\<close> followed by its two resumptions, with nothing in
  between, is \<open>transform\<close>; so a schedule without overlap is \<open>run_calls\<close>.
\<close>

lemma resume_on_Finished [simp]:
  "resume_on g h po (st, evs, Finished out) = (st, evs, Finished out)"
  by (simp add: resume_on_def resume_def)

lemma resume_on_AwaitGlob:
  "st_program st = None \<Longrightarrow>
   resume_on g h po (st, evs, AwaitGlob source ident) =
     (case build_and_emit h st source ident of
        (st', evs', out) \<Rightarrow> (st', evs @ evs', Finished out))"
  by (simp add: resume_on_def resume_def build_and_emit_def split: option.splits prod.splits)

lemma after_config_resume:
  "resume_on g h po (after_config h st source ident) =
     (case build_and_emit h st source ident of (st', evs, out) \<Rightarrow> (st', evs, Finished out))"
proof (cases "st_program st")
  case None
  then show ?thesis
    by (simp add: after_config_def resume_on_AwaitGlob)
next
  case (Some p)
  then show ?thesis
    by (simp add: after_config_def build_and_emit_def split: prod.splits)
qed

lemma after_config_resume_prefixed:
  "resume_on g h po (case after_config h st source ident of (st', evs', t') \<Rightarrow> (st', evs @ evs', t')) =
     (case build_and_emit h st source ident of (st', evs', out) \<Rightarrow> (st', evs @ evs', Finished out))"
proof (cases "st_program st")
  case None
  then show ?thesis
    by (simp add: after_config_def resume_on_AwaitGlob)
next
  case (Some p)
  then show ?thesis
    by (simp add: after_config_def build_and_emit_def split: prod.splits)
qed

lemma resume_on_AwaitConfig:
  "resume_on g h po (resume_on g h po (st, [], AwaitConfig source ident)) =
     (case (case getCompilerOptions (overlay g) h po of
              Inr c \<Rightarrow> (st\<lparr>st_compilerOptions := Some c\<rparr>, [], None)
            | Inl diagnostics \<Rightarrow>
               (case printDiagnostics h diagnostics (config_context g) of
                  (evs, Returned) \<Rightarrow> (st, evs, None)
                | (evs, ContextError m l) \<Rightarrow> (st, evs, Some (Aborted m l))
                | (evs, Thrown f) \<Rightarrow> (st, evs, Some (Rejected f)))) of
        (st1, evs1, Some out) \<Rightarrow> (st1, evs1, Finished out)
      | (st1, evs1, None) \<Rightarrow>
          (case build_and_emit h st1 source ident of
             (st2, evs2, out) \<Rightarrow> (st2, evs1 @ evs2, Finished out)))"
proof (cases "getCompilerOptions (overlay g) h po")
  case (Inr c)
  have "resume_on g h po (st, [], AwaitConfig source ident)
          = after_config h (st\<lparr>st_compilerOptions := Some c\<rparr>) source ident"
    by (simp add: resume_on_def resume_def Inr split: prod.splits)
  then show ?thesis
    by (simp add: Inr after_config_resume)
next
  case (Inl ds)
  obtain evs r where p: "printDiagnostics h ds (config_context g) = (evs, r)"
    by (cases "printDiagnostics h ds (config_context g)")
  show ?thesis
  proof (cases r)
    case Returned
    have "resume_on g h po (st, [], AwaitConfig source ident)
            = (case after_config h st source ident of (st', evs', t') \<Rightarrow> (st', evs @ evs', t'))"
      by (simp add: resume_on_def resume_def Inl p Returned split: prod.splits)
    then show ?thesis
      by (simp add: Inl p Returned after_config_resume_prefixed)
  next
    case (ContextError m l)
    then show ?thesis
      by (simp add: resume_on_def resume_def Inl p)
  next
    case (Thrown f)
    then show ?thesis
      by (simp add: resume_on_def resume_def Inl p)
  qed
qed

lemma start_resumed_twice:
  "resume_on g h po (resume_on g h po (transform_start g h st source ident)) =
     (case transform g h po st source ident of (st', evs, out) \<Rightarrow> (st', evs, Finished out))"
proof (cases "recognises g ident")
  case False
  then show ?thesis by (simp add: transform_start_def transform_def)
next
  case True
  show ?thesis
  proof (cases "st_compilerOptions st")
    case None
    have "transform_start g h st source ident = (st, [], AwaitConfig source ident)"
      using True None by (simp add: transform_start_def)
    then show ?thesis
      using True None
      by (simp add: resume_on_AwaitConfig transform_def resolve_config_def
          split: sum.splits prod.splits report_outcome.splits option.splits)
  next
    case (Some c)
    have s: "transform_start g h st source ident = after_config h st source ident"
      using True Some by (simp add: transform_start_def)
    obtain st' evs out where b: "build_and_emit h st source ident = (st', evs, out)"
      by (cases "build_and_emit h st source ident")
    have "resume_on g h po (after_config h st source ident) = (st', evs, Finished out)"
      by (simp add: after_config_resume b)
    then show ?thesis
      using True Some by (simp add: s transform_def resolve_config_def b)
  qed
qed


lemma step_CallTransform:
  "step g h po b (CallTransform source ident) =
     (case transform_start g h (shared b) source ident of
        (st, evs, t) \<Rightarrow> \<lparr>shared = st, tasks = tasks b @ [t], trace = trace b @ evs\<rparr>)"
  by (simp add: step_def)

lemma step_Resume_last:
  "step g h po \<lparr>shared = st, tasks = ts @ [t], trace = tr @ evs\<rparr> (Resume (length ts)) =
     (case resume_on g h po (st, evs, t) of
        (st', evs', t') \<Rightarrow> \<lparr>shared = st', tasks = ts @ [t'], trace = tr @ evs'\<rparr>)"
  by (simp add: step_def resume_on_def split: prod.splits)

lemma staged_transform:
  assumes "length (tasks b) = n"
  shows "run g h po b [CallTransform source ident, Resume n, Resume n] =
           (case transform g h po (shared b) source ident of
              (st', evs, out) \<Rightarrow>
                \<lparr>shared = st', tasks = tasks b @ [Finished out], trace = trace b @ evs\<rparr>)"
proof -
  obtain st1 e1 t1 where s1: "transform_start g h (shared b) source ident = (st1, e1, t1)"
    by (cases "transform_start g h (shared b) source ident")
  obtain st2 e2 t2 where s2: "resume_on g h po (st1, e1, t1) = (st2, e2, t2)"
    by (cases "resume_on g h po (st1, e1, t1)")
  obtain st3 e3 t3 where s3: "resume_on g h po (st2, e2, t2) = (st3, e3, t3)"
    by (cases "resume_on g h po (st2, e2, t2)")
  have "run g h po b [CallTransform source ident, Resume n, Resume n] =
          \<lparr>shared = st3, tasks = tasks b @ [t3], trace = trace b @ e3\<rparr>"
    using assms [symmetric]
    by (simp add: run_def step_CallTransform s1 step_Resume_last s2 s3)
  moreover have "(st3, e3, t3) =
      (case transform g h po (shared b) source ident of (st', evs, out) \<Rightarrow> (st', evs, Finished out))"
    using start_resumed_twice [of g h po "shared b" source ident] by (simp add: s1 s2 s3)
  ultimately show ?thesis by (auto split: prod.splits)
qed

lemma run_Cons: "run g h po b (a # acts) = run g h po (step g h po b a) acts"
  by (simp add: run_def)

lemma run_append: "run g h po b (xs @ ys) = run g h po (run g h po b xs) ys"
  by (simp add: run_def)

lemma run_sequential:
  "shared (run g h po b (sequential (length (tasks b)) calls))
     = fst (run_calls g h po (shared b, trace b) calls) \<and>
   trace (run g h po b (sequential (length (tasks b)) calls))
     = snd (run_calls g h po (shared b, trace b) calls)"
proof (induction calls arbitrary: b)
  case Nil
  then show ?case by (simp add: run_def)
next
  case (Cons c calls)
  show ?case
  proof (cases c)
    case (OptionsCall i)
    let ?b = "step g h po b (CallOptions i)"
    have b: "tasks ?b = tasks b" "shared ?b = options (shared b) i" "trace ?b = trace b"
      by (simp_all add: step_def)
    show ?thesis
      using Cons.IH [of ?b] by (simp add: OptionsCall run_Cons b)
  next
    case (TransformCall source ident)
    let ?n = "length (tasks b)"
    let ?b = "run g h po b [CallTransform source ident, Resume ?n, Resume ?n]"
    obtain st' evs out where t: "transform g h po (shared b) source ident = (st', evs, out)"
      by (cases "transform g h po (shared b) source ident")
    have b: "?b = \<lparr>shared = st', tasks = tasks b @ [Finished out], trace = trace b @ evs\<rparr>"
      using staged_transform [of b ?n g h po source ident] by (simp add: t)
    have "run g h po b (sequential ?n (c # calls)) = run g h po ?b (sequential (Suc ?n) calls)"
      using run_append [of g h po b "[CallTransform source ident, Resume ?n, Resume ?n]"
          "sequential (Suc ?n) calls"]
      by (simp add: TransformCall)
    moreover have "length (tasks ?b) = Suc ?n" by (simp add: b)
    ultimately show ?thesis
      using Cons.IH [of ?b] by (simp add: TransformCall t b)
  qed
qed

lemma programs_created_append:
  "programs_created (xs @ ys) = programs_created xs @ programs_created ys"
  by (induction xs rule: programs_created.induct) simp_all

lemma printDiagnostics_no_programs: "programs_created (fst (printDiagnostics h ds c)) = []"
  by (induction ds) (auto simp: Let_def split: option.splits prod.splits)

lemma check_and_emit_no_programs:
  "programs_created (fst (check_and_emit h st p source ident)) = []"
proof (cases "getSourceFile h p ident")
  case None
  then show ?thesis by (simp add: check_and_emit_def)
next
  case (Some sf)
  obtain evs r where d:
    "printDiagnostics h (getPreEmitDiagnostics h p sf) (Some TransformContext) = (evs, r)"
    by (cases "printDiagnostics h (getPreEmitDiagnostics h p sf) (Some TransformContext)")
  have "programs_created evs = []"
    using printDiagnostics_no_programs [of h "getPreEmitDiagnostics h p sf" "Some TransformContext"]
    by (simp add: d)
  then show ?thesis
    by (cases r) (simp_all add: check_and_emit_def Some d)
qed

lemma build_and_emit_programs:
  assumes "build_and_emit h st source ident = (st', evs, out)"
  shows "st_input st' = st_input st \<and> st_compilerOptions st' = st_compilerOptions st \<and>
         (case st_program st of
            Some p \<Rightarrow> st_program st' = Some p \<and> programs_created evs = []
          | None \<Rightarrow>
              (case st_compilerOptions st of
                 None \<Rightarrow> st_program st' = None \<and> programs_created evs = [] \<and> out = TypeError
               | Some c \<Rightarrow>
                   st_program st' = Some \<lparr>rootNames = glob_declarations h @ st_input st,
                                           programOptions = c\<rparr> \<and>
                   programs_created evs = [\<lparr>rootNames = glob_declarations h @ st_input st,
                                            programOptions = c\<rparr>]))"
proof (cases "st_program st")
  case None
  show ?thesis
  proof (cases "st_compilerOptions st")
    case n: None
    with assms None show ?thesis
      by (auto simp: build_and_emit_def build_program_def)
  next
    case (Some c)
    let ?p = "\<lparr>rootNames = glob_declarations h @ st_input st, programOptions = c\<rparr>"
    let ?st = "st\<lparr>st_program := Some ?p\<rparr>"
    obtain evs' out' where c: "check_and_emit h ?st ?p source ident = (evs', out')"
      by (cases "check_and_emit h ?st ?p source ident")
    have "programs_created evs' = []"
      using check_and_emit_no_programs [of h ?st ?p source ident] by (simp add: c)
    with assms None Some c show ?thesis
      by (auto simp: build_and_emit_def build_program_def Let_def)
  qed
next
  case (Some p)
  obtain evs' out' where c: "check_and_emit h st p source ident = (evs', out')"
    by (cases "check_and_emit h st p source ident")
  have "programs_created evs' = []"
    using check_and_emit_no_programs [of h st p source ident] by (simp add: c)
  with assms Some c show ?thesis
    by (auto simp: build_and_emit_def)
qed

lemma resolve_config_programs:
  assumes "resolve_config g h po st = (st', evs, r)"
  shows "st_input st' = st_input st \<and> st_program st' = st_program st \<and>
         programs_created evs = []"
proof (cases "st_compilerOptions st")
  case (Some c)
  with assms show ?thesis by (simp add: resolve_config_def)
next
  case None
  show ?thesis
  proof (cases "getCompilerOptions (overlay g) h po")
    case (Inr c)
    with assms None show ?thesis by (auto simp: resolve_config_def)
  next
    case (Inl ds)
    obtain evs' r' where d: "printDiagnostics h ds (config_context g) = (evs', r')"
      by (cases "printDiagnostics h ds (config_context g)")
    have "programs_created evs' = []"
      using printDiagnostics_no_programs [of h ds "config_context g"] by (simp add: d)
    with assms None Inl d show ?thesis
      by (cases r') (auto simp: resolve_config_def)
  qed
qed

lemma transform_programs:
  assumes "transform g h po st source ident = (st', evs, out)"
  shows "st_input st' = st_input st \<and>
         (case st_program st of
            Some p \<Rightarrow> st_program st' = Some p \<and> programs_created evs = []
          | None \<Rightarrow>
              (st_program st' = None \<and> programs_created evs = []) \<or>
              (\<exists>p. st_program st' = Some p \<and> programs_created evs = [p] \<and>
                   rootNames p = glob_declarations h @ st_input st))"
proof (cases "recognises g ident")
  case False
  with assms show ?thesis by (auto simp: transform_def split: option.splits)
next
  case True
  obtain st1 evs1 r where c: "resolve_config g h po st = (st1, evs1, r)"
    by (cases "resolve_config g h po st") auto
  note c1 = resolve_config_programs [OF c]
  show ?thesis
  proof (cases r)
    case (Some out')
    with assms True c c1 show ?thesis
      by (auto simp: transform_def split: option.splits)
  next
    case None
    obtain st2 evs2 out2 where b: "build_and_emit h st1 source ident = (st2, evs2, out2)"
      by (cases "build_and_emit h st1 source ident") auto
    note b1 = build_and_emit_programs [OF b]
    from assms True c None b have e: "st' = st2" "evs = evs1 @ evs2"
      by (simp_all add: transform_def)
    show ?thesis
      using c1 b1 by (auto simp: e programs_created_append split: option.splits)
  qed
qed

lemma run_calls_built_once:
  "built_once (st, tr) \<Longrightarrow> built_once (run_calls g h po (st, tr) calls)"
proof (induction calls arbitrary: st tr)
  case Nil
  then show ?case by simp
next
  case (Cons c calls)
  show ?case
  proof (cases c)
    case (OptionsCall i)
    have "built_once (options st i, tr)"
      using Cons.prems
      by (auto simp: built_once_def options_def split: option.splits InputOption.splits)
    then show ?thesis
      using Cons.IH by (simp add: OptionsCall)
  next
    case (TransformCall source ident)
    obtain st' evs out where t: "transform g h po st source ident = (st', evs, out)"
      by (cases "transform g h po st source ident")
    have "built_once (st', tr @ evs)"
      using Cons.prems transform_programs [OF t]
      by (auto simp: built_once_def programs_created_append split: option.splits)
    then show ?thesis
      using Cons.IH by (simp add: TransformCall t)
  qed
qed

lemma sequential_build_once:
  "length (programs_created (trace (run g h po initial_build (sequential 0 calls)))) \<le> 1"
proof -
  have i: "built_once (initial_state, [])"
    by (simp add: built_once_def initial_state_def)
  have "built_once (run_calls g h po (initial_state, []) calls)"
    using i by (rule run_calls_built_once)
  moreover have "trace (run g h po initial_build (sequential 0 calls))
                   = snd (run_calls g h po (initial_state, []) calls)"
    using run_sequential [of g h po initial_build calls] by (simp add: initial_build_def)
  ultimately show ?thesis
    by (auto simp: built_once_def split: option.splits)
qed

lemma example_index_config:
  "getCompilerOptions compilerOptions_index example_host None
     = Inr ([''strict'' \<mapsto> VBool True] ++ compilerOptions_index)"
  by (simp add: getCompilerOptions_def loadParsed_def example_host_def configFilename_def
      strict_config_text_def options_of_json_def List.map_filter_def)

lemma example_check_and_emit:
  "check_and_emit example_host st p source ident = ([], Output source (Some (JObject [])))"
  by (simp add: check_and_emit_def emit_def example_host_def Let_def)

lemma example_glob: "glob_declarations example_host = [''types/globals.d.ts'']"
  by (simp add: example_host_def)

lemma example_recognised:
  "recognises index_ts ''/project/src/a.ts''" "recognises index_ts ''/project/src/b.ts''"
  by (simp_all add: index_ts_def isTsFile_def extname_def lastComponent_def extensions_def)

lemma overlapping_run:
  "run index_ts example_host None initial_build overlapping_build =
     \<lparr>shared =
        \<lparr>st_input = [''/project/src/a.ts'', ''/project/src/b.ts''],
         st_compilerOptions = Some ([''strict'' \<mapsto> VBool True] ++ compilerOptions_index),
         st_program =
           Some \<lparr>rootNames = [''types/globals.d.ts'', ''/project/src/a.ts'', ''/project/src/b.ts''],
                 programOptions = [''strict'' \<mapsto> VBool True] ++ compilerOptions_index\<rparr>\<rparr>,
      tasks = [Finished (Output ''export const x = 1;'' (Some (JObject []))),
               Finished (Output ''export const y = 2;'' (Some (JObject [])))],
      trace =
        [CreatedProgram
           \<lparr>rootNames = [''types/globals.d.ts'', ''/project/src/a.ts'', ''/project/src/b.ts''],
            programOptions = [''strict'' \<mapsto> VBool True] ++ compilerOptions_index\<rparr>,
         CreatedProgram
           \<lparr>rootNames = [''types/globals.d.ts'', ''/project/src/a.ts'', ''/project/src/b.ts''],
            programOptions = [''strict'' \<mapsto> VBool True] ++ compilerOptions_index\<rparr>]\<rparr>"
proof -
  let ?a = "''/project/src/a.ts''" and ?b = "''/project/src/b.ts''"
  let ?x = "''export const x = 1;''" and ?y = "''export const y = 2;''"
  let ?c = "[''strict'' \<mapsto> VBool True] ++ compilerOptions_index"
  let ?p = "\<lparr>rootNames = [''types/globals.d.ts'', ?a, ?b], programOptions = ?c\<rparr>"
  let ?s0 = "\<lparr>st_input = [?a, ?b], st_compilerOptions = None, st_program = None\<rparr>"
  let ?s1 = "\<lparr>st_input = [?a, ?b], st_compilerOptions = Some ?c, st_program = None\<rparr>"
  let ?s2 = "\<lparr>st_input = [?a, ?b], st_compilerOptions = Some ?c, st_program = Some ?p\<rparr>"
  let ?step = "step index_ts example_host None"
  have 1: "?step initial_build (CallOptions (Some (InputArray [?a, ?b])))
             = \<lparr>shared = ?s0, tasks = [], trace = []\<rparr>"
    by (simp add: step_def initial_build_def initial_state_def options_def)
  have 2: "?step \<lparr>shared = ?s0, tasks = [], trace = []\<rparr> (CallTransform ?x ?a)
             = \<lparr>shared = ?s0, tasks = [AwaitConfig ?x ?a], trace = []\<rparr>"
    by (simp add: step_def transform_start_def example_recognised)
  have 3: "?step \<lparr>shared = ?s0, tasks = [AwaitConfig ?x ?a], trace = []\<rparr> (CallTransform ?y ?b)
             = \<lparr>shared = ?s0, tasks = [AwaitConfig ?x ?a, AwaitConfig ?y ?b], trace = []\<rparr>"
    by (simp add: step_def transform_start_def example_recognised)
  have o: "overlay index_ts = compilerOptions_index" by (simp add: index_ts_def)
  have 4: "?step \<lparr>shared = ?s0, tasks = [AwaitConfig ?x ?a, AwaitConfig ?y ?b], trace = []\<rparr>
             (Resume 0)
             = \<lparr>shared = ?s1, tasks = [AwaitGlob ?x ?a, AwaitConfig ?y ?b], trace = []\<rparr>"
    by (simp add: step_def resume_def o example_index_config after_config_def)
  have 5: "?step \<lparr>shared = ?s1, tasks = [AwaitGlob ?x ?a, AwaitConfig ?y ?b], trace = []\<rparr>
             (Resume (Suc 0))
             = \<lparr>shared = ?s1, tasks = [AwaitGlob ?x ?a, AwaitGlob ?y ?b], trace = []\<rparr>"
    by (simp add: step_def resume_def o example_index_config after_config_def)
  have 6: "?step \<lparr>shared = ?s1, tasks = [AwaitGlob ?x ?a, AwaitGlob ?y ?b], trace = []\<rparr>
             (Resume 0)
             = \<lparr>shared = ?s2,
                tasks = [Finished (Output ?x (Some (JObject []))), AwaitGlob ?y ?b],
                trace = [CreatedProgram ?p]\<rparr>"
    by (simp add: step_def resume_def build_program_def example_glob example_check_and_emit Let_def)
  have 7: "?step \<lparr>shared = ?s2,
                tasks = [Finished (Output ?x (Some (JObject []))), AwaitGlob ?y ?b],
                trace = [CreatedProgram ?p]\<rparr> (Resume (Suc 0))
             = \<lparr>shared = ?s2,
                tasks = [Finished (Output ?x (Some (JObject []))),
                         Finished (Output ?y (Some (JObject [])))],
                trace = [CreatedProgram ?p, CreatedProgram ?p]\<rparr>"
    by (simp add: step_def resume_def build_program_def example_glob example_check_and_emit Let_def)
  show ?thesis
    by (simp only: overlapping_build_def run_def foldl.simps 1 2 3 4 5 6 7 One_nat_def)
qed

text \<open>
  C1, at the input where the plugin departs from it. Two entry points, and two calls of
  \<^verbatim>\<open>transform\<close> that overlap: each finds \<^verbatim>\<open>program\<close> unset and
  is suspended at \<^verbatim>\<open>await glob(...)\<close>, and each creates a program when it
  is resumed. Both calls return their code; two programs were created in the build.
\<close>

theorem C1_overlapping_transforms_build_twice:
  "length (programs_created
     (trace (run index_ts example_host None initial_build overlapping_build))) = 2 \<and>
   tasks (run index_ts example_host None initial_build overlapping_build) =
     [Finished (Output ''export const x = 1;'' (Some (JObject []))),
      Finished (Output ''export const y = 2;'' (Some (JObject [])))]"
  by (simp add: overlapping_run)

end
